theory Spec2Isabelle
  imports Main "HOL-Library.Monad_Syntax" "HOL-Library.Word"
begin

section \<open>The intrinsic type universe\<close>

text \<open>
  The kinds of \<open>ast::BuiltinType\<close> that the checked intrinsics mention, and the derived
  types. Types are uniqued in the source, so identity of type objects is equality here.
\<close>

datatype builtin_kind =
    Nil_kind | Bool_kind
  | Int8 | Int16 | Int32 | Int64
  | Uint8 | Uint16 | Uint32 | Uint64
  | Float32 | Float64
  | Boolean | Integer | Real_kind | StringVal | Date
  | ProjectedColumnsIterator | TableVectorIterator | IndexIterator
  | JoinHashTable | JoinHashTableIterator
  | AggregationHashTable | AggregationHashTableIterator | AggOverflowPartIter
  | Sorter | SorterIterator | FilterManager | MemoryPool
  | ThreadStateContainer | ExecutionContext

datatype ast_type =
    BuiltinType builtin_kind
  | PointerType ast_type
  | FunctionType "ast_type list" ast_type
  | ArrayType ast_type
  | StringType

definition GetBuiltinType :: "builtin_kind \<Rightarrow> ast_type" where
  "GetBuiltinType k = BuiltinType k"

definition PointerTo :: "ast_type \<Rightarrow> ast_type" where
  "PointerTo t = PointerType t"

fun GetPointeeType :: "ast_type \<Rightarrow> ast_type option" where
  "GetPointeeType (PointerType t) = Some t"
| "GetPointeeType _ = None"

definition IsSpecificBuiltin :: "ast_type \<Rightarrow> builtin_kind \<Rightarrow> bool" where
  "IsSpecificBuiltin t k = (t = BuiltinType k)"

fun IsPointerType :: "ast_type \<Rightarrow> bool" where
  "IsPointerType (PointerType _) = True"
| "IsPointerType _ = False"

fun IsFunctionType :: "ast_type \<Rightarrow> bool" where
  "IsFunctionType (FunctionType _ _) = True"
| "IsFunctionType _ = False"

fun IsStringType :: "ast_type \<Rightarrow> bool" where
  "IsStringType StringType = True"
| "IsStringType _ = False"

definition IsBoolType :: "ast_type \<Rightarrow> bool" where
  "IsBoolType t = IsSpecificBuiltin t Bool_kind"

text \<open>The file-local helpers of \<open>sema_builtin.cpp\<close>.\<close>

definition IsPointerToSpecificBuiltin :: "ast_type \<Rightarrow> builtin_kind \<Rightarrow> bool" where
  "IsPointerToSpecificBuiltin t k =
     (case GetPointeeType t of
        Some pointee_type \<Rightarrow> IsSpecificBuiltin pointee_type k
      | None \<Rightarrow> False)"

definition AreAllFunctions :: "ast_type list \<Rightarrow> bool" where
  "AreAllFunctions ts = list_all IsFunctionType ts"

section \<open>Call expressions and the error reporter\<close>

record expr =
  expr_type :: ast_type
  IsStringLiteral :: bool

text \<open>
  A call carries its position, the callee's name, its arguments (already resolved when
  a check function runs) and its own type, unset until a check function sets it.
\<close>

record call_expr =
  position :: nat
  GetFuncName :: string
  arguments :: "expr list"
  call_type :: "ast_type option"

datatype expected = ExpectedType ast_type | ExpectedText string

datatype diagnostic =
    MismatchedCallArgs nat string nat nat
  | IncorrectCallArg nat string nat expected

definition num_args :: "call_expr \<Rightarrow> nat" where
  "num_args call = length (arguments call)"

definition set_type :: "call_expr \<Rightarrow> ast_type \<Rightarrow> call_expr" where
  "set_type call t = call\<lparr>call_type := Some t\<rparr>"

text \<open>
  Reading argument \<open>i\<close> of a call. The source indexes the argument vector unchecked; a
  read past its end is undefined behaviour, which the model returns as \<open>None\<close>.
\<close>

definition arg :: "call_expr \<Rightarrow> nat \<Rightarrow> expr option" where
  "arg call i = (if i < length (arguments call) then Some (arguments call ! i) else None)"

text \<open>
  Modelled from the spec: \<open>Sema::CheckArgCount\<close>, \<open>Sema::CheckArgCountAtLeast\<close> and
  \<open>Sema::ReportIncorrectCallArg\<close> belong to \<open>sema.cpp\<close>, outside the sources verified here. Per the
  error taxonomy a wrong argument count reports \<open>MismatchedArgCount\<close> and a wrong argument
  type reports \<open>BadArgType\<close>, each one diagnostic keyed by the call position; the
  in-line count check of \<open>CheckBuiltinIndexIteratorScanKey\<close> has the same shape.
  The functions return the verdict and the reporter's new contents.
\<close>

definition CheckArgCount :: "call_expr \<Rightarrow> nat \<Rightarrow> diagnostic list \<Rightarrow> bool \<times> diagnostic list" where
  "CheckArgCount call expected_arg_count ds =
     (if num_args call \<noteq> expected_arg_count
      then (False, ds @ [MismatchedCallArgs (position call) (GetFuncName call)
                           expected_arg_count (num_args call)])
      else (True, ds))"

definition CheckArgCountAtLeast :: "call_expr \<Rightarrow> nat \<Rightarrow> diagnostic list \<Rightarrow> bool \<times> diagnostic list" where
  "CheckArgCountAtLeast call expected_arg_count ds =
     (if num_args call < expected_arg_count
      then (False, ds @ [MismatchedCallArgs (position call) (GetFuncName call)
                           expected_arg_count (num_args call)])
      else (True, ds))"

definition ReportIncorrectCallArg :: "call_expr \<Rightarrow> nat \<Rightarrow> expected \<Rightarrow> diagnostic list \<Rightarrow> diagnostic list" where
  "ReportIncorrectCallArg call index e ds =
     ds @ [IncorrectCallArg (position call) (GetFuncName call) index e]"

text \<open>
  A check function maps the call and the reporter's contents to the call (its type set
  or left unset) and the reporter's new contents; \<open>None\<close> is undefined behaviour (an
  argument read out of range, or \<open>UNREACHABLE\<close>).
\<close>

type_synonym sema_result = "(call_expr \<times> diagnostic list) option"

text \<open>
  The intrinsics of \<open>ast::Builtin\<close> that the check functions below switch on, and a few
  of the others, which reach their \<open>default\<close> case.
\<close>

datatype Builtin =
    TableIterInit | TableIterAdvance | TableIterGetPCI | TableIterClose | TableIterParallel
  | AggHashTableInit | AggHashTableInsert | AggHashTableLookup | AggHashTableProcessBatch
  | AggHashTableMovePartitions | AggHashTableParallelPartitionedScan | AggHashTableFree
  | IndexIteratorInit | IndexIteratorScanKey | IndexIteratorFree
  | SizeOf | PtrCast | Hash_builtin

section \<open>Checks of the intrinsic calls\<close>

definition CheckBuiltinIndexIteratorInit :: "call_expr \<Rightarrow> diagnostic list \<Rightarrow> sema_result" where
  "CheckBuiltinIndexIteratorInit call ds =
     (case CheckArgCount call 2 ds of
        (False, ds1) \<Rightarrow> Some (call, ds1)
      | (True, ds1) \<Rightarrow> do {
          a0 \<leftarrow> arg call 0;
          if \<not> IsPointerToSpecificBuiltin (expr_type a0) IndexIterator
          then Some (call, ReportIncorrectCallArg call 0
                             (ExpectedType (PointerTo (GetBuiltinType IndexIterator))) ds1)
          else do {
            a1 \<leftarrow> arg call 1;
            if \<not> IsStringType (expr_type a1)
            then Some (call, ReportIncorrectCallArg call 1 (ExpectedType StringType) ds1)
            else do {
              a2 \<leftarrow> arg call 2;
              if \<not> IsPointerToSpecificBuiltin (expr_type a2) ExecutionContext
              then Some (call, ReportIncorrectCallArg call 2
                                 (ExpectedType (PointerTo (GetBuiltinType ExecutionContext))) ds1)
              else Some (set_type (set_type call (GetBuiltinType Nil_kind))
                                  (GetBuiltinType Nil_kind), ds1)
            }
          }
        })"

text \<open>
  \<open>Sema::CheckBuiltinTableIterCall\<close>. The first argument is read before any count
  check; only the \<open>TableIterInit\<close> case checks the argument count.
\<close>

definition CheckBuiltinTableIterCall :: "call_expr \<Rightarrow> Builtin \<Rightarrow> diagnostic list \<Rightarrow> sema_result" where
  "CheckBuiltinTableIterCall call builtin ds = do {
     a0 \<leftarrow> arg call 0;
     if \<not> IsPointerToSpecificBuiltin (expr_type a0) TableVectorIterator
     then Some (call, ReportIncorrectCallArg call 0
                        (ExpectedType (PointerTo (GetBuiltinType TableVectorIterator))) ds)
     else (case builtin of
        TableIterInit \<Rightarrow>
          (case CheckArgCount call 3 ds of
             (False, ds1) \<Rightarrow> Some (call, ds1)
           | (True, ds1) \<Rightarrow> do {
               a1 \<leftarrow> arg call 1;
               if \<not> IsStringLiteral a1
               then Some (call, ReportIncorrectCallArg call 1 (ExpectedType StringType) ds1)
               else do {
                 a2 \<leftarrow> arg call 2;
                 if \<not> IsPointerToSpecificBuiltin (expr_type a2) ExecutionContext
                 then Some (call, ReportIncorrectCallArg call 2
                                    (ExpectedType (PointerTo (GetBuiltinType ExecutionContext))) ds1)
                 else Some (set_type call (GetBuiltinType Nil_kind), ds1)
               }
             })
      | TableIterAdvance \<Rightarrow> Some (set_type call (GetBuiltinType Bool_kind), ds)
      | TableIterGetPCI \<Rightarrow>
          Some (set_type call (PointerTo (GetBuiltinType ProjectedColumnsIterator)), ds)
      | TableIterClose \<Rightarrow> Some (set_type call (GetBuiltinType Nil_kind), ds)
      | _ \<Rightarrow> None)
   }"

text \<open>
  \<open>Sema::CheckBuiltinAggHashTableCall\<close>: the cases of its \<open>switch\<close>, one definition
  each, then the function. Every case runs after the first argument has been checked.
\<close>

definition AggHashTableInit_case :: "call_expr \<Rightarrow> diagnostic list \<Rightarrow> sema_result" where
  "AggHashTableInit_case call ds =
     (case CheckArgCount call 3 ds of
        (False, ds1) \<Rightarrow> Some (call, ds1)
      | (True, ds1) \<Rightarrow> do {
          a1 \<leftarrow> arg call 1;
          if \<not> IsPointerToSpecificBuiltin (expr_type a1) MemoryPool
          then Some (call, ReportIncorrectCallArg call 1
                             (ExpectedType (PointerTo (GetBuiltinType MemoryPool))) ds1)
          else do {
            a2 \<leftarrow> arg call 2;
            if \<not> IsSpecificBuiltin (expr_type a2) Uint32
            then Some (call, ReportIncorrectCallArg call 2
                               (ExpectedType (GetBuiltinType Uint32)) ds1)
            else Some (set_type call (GetBuiltinType Nil_kind), ds1)
          }
        })"

definition AggHashTableInsert_case :: "call_expr \<Rightarrow> diagnostic list \<Rightarrow> sema_result" where
  "AggHashTableInsert_case call ds =
     (case CheckArgCount call 2 ds of
        (False, ds1) \<Rightarrow> Some (call, ds1)
      | (True, ds1) \<Rightarrow> do {
          a1 \<leftarrow> arg call 1;
          if \<not> IsSpecificBuiltin (expr_type a1) Uint64
          then Some (call, ReportIncorrectCallArg call 1
                             (ExpectedType (GetBuiltinType Uint64)) ds1)
          else Some (set_type call (PointerTo (GetBuiltinType Uint8)), ds1)
        })"

definition AggHashTableLookup_case :: "call_expr \<Rightarrow> diagnostic list \<Rightarrow> sema_result" where
  "AggHashTableLookup_case call ds =
     (case CheckArgCount call 4 ds of
        (False, ds1) \<Rightarrow> Some (call, ds1)
      | (True, ds1) \<Rightarrow> do {
          a1 \<leftarrow> arg call 1;
          if \<not> IsSpecificBuiltin (expr_type a1) Uint64
          then Some (call, ReportIncorrectCallArg call 1
                             (ExpectedType (GetBuiltinType Uint64)) ds1)
          else do {
            a2 \<leftarrow> arg call 2;
            if \<not> IsFunctionType (expr_type a2)
            then Some (call, ReportIncorrectCallArg call 2
                               (ExpectedType (GetBuiltinType Uint64)) ds1)
            else Some (set_type call (PointerTo (GetBuiltinType Uint8)), ds1)
          }
        })"

text \<open>
  The \<open>AggHashTableProcessBatch\<close> case. In the source \<open>pci_kind\<close> is
  \<open>BuiltinType::Uint64\<close>, and the second argument is refused when it is not a pointer
  or when it is a pointer to a pointer to that kind.
\<close>

definition AggHashTableProcessBatch_case :: "call_expr \<Rightarrow> diagnostic list \<Rightarrow> sema_result" where
  "AggHashTableProcessBatch_case call ds =
     (case CheckArgCount call 7 ds of
        (False, ds1) \<Rightarrow> Some (call, ds1)
      | (True, ds1) \<Rightarrow> do {
          a1 \<leftarrow> arg call 1;
          if \<not> IsPointerType (expr_type a1) \<or>
             (case GetPointeeType (expr_type a1) of
                Some pointee \<Rightarrow> IsPointerToSpecificBuiltin pointee Uint64
              | None \<Rightarrow> False)
          then Some (call, ReportIncorrectCallArg call 1
                             (ExpectedType (PointerTo (GetBuiltinType Uint64))) ds1)
          else do {
            a2 \<leftarrow> arg call 2;
            a3 \<leftarrow> arg call 3;
            a4 \<leftarrow> arg call 4;
            a5 \<leftarrow> arg call 5;
            if \<not> AreAllFunctions [expr_type a2, expr_type a3, expr_type a4, expr_type a5]
            then Some (call, ReportIncorrectCallArg call 2 (ExpectedText ''function'') ds1)
            else do {
              a6 \<leftarrow> arg call 6;
              if \<not> IsBoolType (expr_type a6)
              then Some (call, ReportIncorrectCallArg call 6
                                 (ExpectedType (GetBuiltinType Bool_kind)) ds1)
              else Some (set_type call (GetBuiltinType Nil_kind), ds1)
            }
          }
        })"

definition AggHashTableMovePartitions_case :: "call_expr \<Rightarrow> diagnostic list \<Rightarrow> sema_result" where
  "AggHashTableMovePartitions_case call ds =
     (case CheckArgCount call 4 ds of
        (False, ds1) \<Rightarrow> Some (call, ds1)
      | (True, ds1) \<Rightarrow> do {
          a1 \<leftarrow> arg call 1;
          if \<not> IsPointerToSpecificBuiltin (expr_type a1) ThreadStateContainer
          then Some (call, ReportIncorrectCallArg call 1
                             (ExpectedType (PointerTo (GetBuiltinType ThreadStateContainer))) ds1)
          else do {
            a2 \<leftarrow> arg call 2;
            if \<not> IsSpecificBuiltin (expr_type a2) Uint32
            then Some (call, ReportIncorrectCallArg call 2
                               (ExpectedType (GetBuiltinType Uint32)) ds1)
            else do {
              a3 \<leftarrow> arg call 3;
              if \<not> IsFunctionType (expr_type a3)
              then Some (call, ReportIncorrectCallArg call 3
                                 (ExpectedType (GetBuiltinType Uint32)) ds1)
              else Some (set_type call (GetBuiltinType Nil_kind), ds1)
            }
          }
        })"

definition AggHashTableParallelPartitionedScan_case ::
  "call_expr \<Rightarrow> diagnostic list \<Rightarrow> sema_result" where
  "AggHashTableParallelPartitionedScan_case call ds =
     (case CheckArgCount call 4 ds of
        (False, ds1) \<Rightarrow> Some (call, ds1)
      | (True, ds1) \<Rightarrow> do {
          a1 \<leftarrow> arg call 1;
          if \<not> IsPointerType (expr_type a1)
          then Some (call, ReportIncorrectCallArg call 1
                             (ExpectedType (GetBuiltinType AggregationHashTable)) ds1)
          else do {
            a2 \<leftarrow> arg call 2;
            if \<not> IsPointerToSpecificBuiltin (expr_type a2) ThreadStateContainer
            then Some (call, ReportIncorrectCallArg call 2
                               (ExpectedType (PointerTo (GetBuiltinType ThreadStateContainer))) ds1)
            else do {
              a3 \<leftarrow> arg call 3;
              if \<not> IsFunctionType (expr_type a3)
              then Some (call, ReportIncorrectCallArg call 3
                                 (ExpectedType (GetBuiltinType ThreadStateContainer)) ds1)
              else Some (set_type call (GetBuiltinType Nil_kind), ds1)
            }
          }
        })"

definition CheckBuiltinAggHashTableCall :: "call_expr \<Rightarrow> Builtin \<Rightarrow> diagnostic list \<Rightarrow> sema_result" where
  "CheckBuiltinAggHashTableCall call builtin ds =
     (case CheckArgCountAtLeast call 1 ds of
        (False, ds1) \<Rightarrow> Some (call, ds1)
      | (True, ds1) \<Rightarrow> do {
          a0 \<leftarrow> arg call 0;
          if \<not> IsPointerToSpecificBuiltin (expr_type a0) AggregationHashTable
          then Some (call, ReportIncorrectCallArg call 0
                             (ExpectedType (PointerTo (GetBuiltinType AggregationHashTable))) ds1)
          else (case builtin of
             AggHashTableInit \<Rightarrow> AggHashTableInit_case call ds1
           | AggHashTableInsert \<Rightarrow> AggHashTableInsert_case call ds1
           | AggHashTableLookup \<Rightarrow> AggHashTableLookup_case call ds1
           | AggHashTableProcessBatch \<Rightarrow> AggHashTableProcessBatch_case call ds1
           | AggHashTableMovePartitions \<Rightarrow> AggHashTableMovePartitions_case call ds1
           | AggHashTableParallelPartitionedScan \<Rightarrow>
               AggHashTableParallelPartitionedScan_case call ds1
           | AggHashTableFree \<Rightarrow> Some (set_type call (GetBuiltinType Nil_kind), ds1)
           | _ \<Rightarrow> None)
        })"

section \<open>The pipeline of translators\<close>

text \<open>
  \<open>Pipeline\<close> holds the vector \<open>pipeline_\<close> (here \<open>pipeline_vec\<close>) and the cursor
  \<open>pipeline_index_\<close> (here \<open>pipeline_index\<close>).
  The class declaration (and with it the cursor's initial value) is in \<open>pipeline.h\<close>,
  outside the sources verified here: the initial value is a parameter of \<open>Pipeline_new\<close>.
\<close>

record 'a Pipeline =
  pipeline_vec :: "'a list"
  pipeline_index :: nat

definition Pipeline_new :: "nat \<Rightarrow> 'a Pipeline" where
  "Pipeline_new initial_index = \<lparr>pipeline_vec = [], pipeline_index = initial_index\<rparr>"

datatype pipeline_error = IndexOutOfRange

text \<open>
  \<open>NextStep\<close> returns a translator or \<open>nullptr\<close> (\<open>None\<close>). The vector is indexed
  unchecked; a cursor beyond its end is an out-of-range read.
\<close>

definition NextStep :: "'a Pipeline \<Rightarrow> pipeline_error + ('a option \<times> 'a Pipeline)" where
  "NextStep p =
     (if pipeline_index p > 0
      then (let i = pipeline_index p - 1 in
            if i < length (pipeline_vec p)
            then Inr (Some (pipeline_vec p ! i), p\<lparr>pipeline_index := i\<rparr>)
            else Inl IndexOutOfRange)
      else Inr (None, p))"

definition Add :: "'a Pipeline \<Rightarrow> 'a \<Rightarrow> 'b \<Rightarrow> 'a Pipeline" where
  "Add p translator parallelism = p\<lparr>pipeline_vec := pipeline_vec p @ [translator]\<rparr>"

text \<open>A pipeline built by \<open>Add(t1), ..., Add(tn)\<close>, and \<open>k\<close> successive calls of \<open>NextStep\<close>.\<close>

fun Add_all :: "'a Pipeline \<Rightarrow> 'a list \<Rightarrow> 'b \<Rightarrow> 'a Pipeline" where
  "Add_all p [] par = p"
| "Add_all p (t # ts) par = Add_all (Add p t par) ts par"

fun NextStep_times :: "nat \<Rightarrow> 'a Pipeline \<Rightarrow> pipeline_error + ('a option list \<times> 'a Pipeline)" where
  "NextStep_times 0 p = Inr ([], p)"
| "NextStep_times (Suc k) p =
     (case NextStep p of
        Inl e \<Rightarrow> Inl e
      | Inr (r, p') \<Rightarrow>
          (case NextStep_times k p' of
             Inl e \<Rightarrow> Inl e
           | Inr (rs, p'') \<Rightarrow> Inr (r # rs, p'')))"

section \<open>The sort checker of the output checker framework\<close>

text \<open>
  \<open>sql::Integer\<close> is a null flag and a 64-bit signed value; values are compared only,
  so they are integers here. A row is the vector of its column values. A failed
  \<open>EXPECT_TRUE\<close> is recorded and the test goes on: the checker counts them. The members
  \<open>prev_val_\<close> and \<open>col_idx_\<close> are \<open>prev_val\<close> and \<open>col_idx_m\<close> here.
\<close>

record sql_Integer =
  is_null :: bool
  val :: int

record SingleIntSortChecker =
  prev_val :: sql_Integer
  col_idx_m :: nat
  failures :: nat

definition SingleIntSortChecker_new :: "nat \<Rightarrow> SingleIntSortChecker" where
  "SingleIntSortChecker_new col_idx =
     \<lparr>prev_val = \<lparr>is_null = True, val = 0\<rparr>, col_idx_m = 0, failures = 0\<rparr>"

definition EXPECT_TRUE :: "bool \<Rightarrow> SingleIntSortChecker \<Rightarrow> SingleIntSortChecker" where
  "EXPECT_TRUE b c = (if b then c else c\<lparr>failures := Suc (failures c)\<rparr>)"

datatype checker_error = ColumnOutOfRange

definition process_row :: "SingleIntSortChecker \<Rightarrow> sql_Integer list \<Rightarrow> checker_error + SingleIntSortChecker" where
  "process_row c vals =
     (if col_idx_m c < length vals
      then (let int_val = vals ! col_idx_m c;
                c1 = (if is_null int_val
                      then EXPECT_TRUE (is_null (prev_val c)) c
                      else EXPECT_TRUE (is_null (prev_val c) \<or> val int_val \<ge> val (prev_val c)) c)
            in Inr (c1\<lparr>prev_val := int_val\<rparr>))
      else Inl ColumnOutOfRange)"

fun ProcessBatch :: "SingleIntSortChecker \<Rightarrow> sql_Integer list list \<Rightarrow> checker_error + SingleIntSortChecker" where
  "ProcessBatch c [] = Inr c"
| "ProcessBatch c (vals # output) =
     (case process_row c vals of
        Inl e \<Rightarrow> Inl e
      | Inr c1 \<Rightarrow> ProcessBatch c1 output)"

fun ProcessBatches :: "SingleIntSortChecker \<Rightarrow> sql_Integer list list list \<Rightarrow> checker_error + SingleIntSortChecker" where
  "ProcessBatches c [] = Inr c"
| "ProcessBatches c (output # rest) =
     (case ProcessBatch c output of
        Inl e \<Rightarrow> Inl e
      | Inr c1 \<Rightarrow> ProcessBatches c1 rest)"

text \<open>
  The property the checker is documented to check, on the values of one column in
  arrival order: nondecreasing, a null accepted only directly after a null (or first).
\<close>

fun sorted_nulls_first :: "sql_Integer \<Rightarrow> sql_Integer list \<Rightarrow> bool" where
  "sorted_nulls_first prev [] = True"
| "sorted_nulls_first prev (v # vs) =
     ((if is_null v then is_null prev else is_null prev \<or> val prev \<le> val v)
      \<and> sorted_nulls_first v vs)"

definition column_sorted :: "nat \<Rightarrow> sql_Integer list list list \<Rightarrow> bool" where
  "column_sorted col batches =
     sorted_nulls_first \<lparr>is_null = True, val = 0\<rparr> (map (\<lambda>vals. vals ! col) (concat batches))"

section \<open>The namespace handle of the catalog\<close>

text \<open>
  \<open>pg_namespace_hrw_\<close> is a \<open>SqlTableHelper\<close>, a class outside the sources verified here:
  the handle uses it through \<open>FindRow\<close> (the row whose column has the given value, or \<open>nullptr\<close>),
  \<open>GetIntColInRow\<close> and \<open>GetPRMap\<close>, which are the fields of this record. A looked-up
  value is an oid (the \<open>uint32_t\<close> under \<open>namespace_oid_t\<close>) or a name.
\<close>

datatype search_value = OidValue "32 word" | NameValue string

record ('txn, 'row, 'map) SqlTableHelper =
  FindRow :: "'txn \<Rightarrow> nat \<Rightarrow> search_value \<Rightarrow> 'row option"
  GetIntColInRow :: "nat \<Rightarrow> 'row \<Rightarrow> int"
  GetPRMap :: "'map"

record ('row, 'map) NamespaceEntry =
  entry_oid :: "32 word"
  entry_row :: "'row"
  entry_map :: "'map"

definition GetNamespaceEntry_oid ::
  "('txn, 'row, 'map) SqlTableHelper \<Rightarrow> 'txn \<Rightarrow> 32 word \<Rightarrow> ('row, 'map) NamespaceEntry option" where
  "GetNamespaceEntry_oid pg_namespace_hrw txn oid =
     (case FindRow pg_namespace_hrw txn 0 (OidValue oid) of
        None \<Rightarrow> None
      | Some p_row \<Rightarrow>
          Some \<lparr>entry_oid = oid, entry_row = p_row, entry_map = GetPRMap pg_namespace_hrw\<rparr>)"

definition GetNamespaceEntry_name ::
  "('txn, 'row, 'map) SqlTableHelper \<Rightarrow> 'txn \<Rightarrow> string \<Rightarrow> ('row, 'map) NamespaceEntry option" where
  "GetNamespaceEntry_name pg_namespace_hrw txn name =
     (case FindRow pg_namespace_hrw txn 1 (NameValue name) of
        None \<Rightarrow> None
      | Some p_row \<Rightarrow>
          (let oid = word_of_int (GetIntColInRow pg_namespace_hrw 0 p_row)
           in Some \<lparr>entry_oid = oid, entry_row = p_row,
                    entry_map = GetPRMap pg_namespace_hrw\<rparr>))"

section \<open>The index manager\<close>

subsection \<open>Storage: projected rows, tables, indexes\<close>

text \<open>
  Oids are the \<open>uint32_t\<close> under the catalog's oid types. A projected row is its column
  ids and the attribute values it holds; \<open>NumColumns\<close> is the number of its column ids.
\<close>

type_synonym oid_t = "32 word"
type_synonym timestamp_t = nat
type_synonym TupleSlot = nat
type_synonym col_id_t = nat
type_synonym attr_value = "int option"
type_synonym index_id = "oid_t \<times> oid_t \<times> oid_t"

record ProjectedRow =
  ColumnIds :: "col_id_t list"
  attr_values :: "attr_value list"

definition NumColumns :: "ProjectedRow \<Rightarrow> nat" where
  "NumColumns pr = length (ColumnIds pr)"

record TransactionContext =
  StartTime :: timestamp_t

text \<open>
  \<open>SqlTable\<close> belongs to the storage layer and is used through its interface: the slots
  in iteration order, \<open>Select\<close> (the values of the row's columns for a slot, or failure
  when the tuple is not visible to the transaction) and the column ids of the row that
  \<open>InitializerForProjectedRow\<close> sets up for a list of column oids.
\<close>

record SqlTable =
  slots :: "TupleSlot list"
  Select :: "TransactionContext \<Rightarrow> TupleSlot \<Rightarrow> col_id_t list \<Rightarrow> attr_value list option"
  InitializerForProjectedRow :: "oid_t list \<Rightarrow> col_id_t list"

datatype ConstraintType = DEFAULT | UNIQUE

record IndexKeyColumn =
  key_oid :: oid_t
  key_type_id :: int
  key_nullable :: bool
  key_max_varlen_size :: "int option"

type_synonym IndexKeySchema = "IndexKeyColumn list"

record Index =
  index_oid_of :: oid_t
  constraint_type :: ConstraintType
  key_schema :: IndexKeySchema
  contents :: "(ProjectedRow \<times> TupleSlot) list"

record AttributeEntry =
  attr_oid :: int
  atttypid :: int
  attlen :: int
  ColumnIsNull :: "string \<Rightarrow> bool"

text \<open>
  The collaborators the index manager calls that lie outside the sources verified here,
  as parameters: the catalog's lookups of user tables and attribute entries, the test
  \<open>GetTypeSize(type_id) == VARLEN_COLUMN\<close>, the index's \<open>Insert\<close> and \<open>InsertUnique\<close>
  (the verdict and the index afterwards), the column ids of the index's own projected
  row, and the transaction manager's \<open>OldestTransactionStartTime\<close>, whose value depends
  on the concurrent transactions: \<open>OldestTransactionStartTime env k\<close> is what its
  \<open>k\<close>-th call returns.
\<close>

record collaborators =
  GetUserTable :: "TransactionContext \<Rightarrow> oid_t \<Rightarrow> oid_t \<Rightarrow> oid_t \<Rightarrow> SqlTable option"
  GetAttributeEntry :: "TransactionContext \<Rightarrow> oid_t \<Rightarrow> oid_t \<Rightarrow> string \<Rightarrow> AttributeEntry option"
  is_VARLEN_COLUMN :: "int \<Rightarrow> bool"
  Insert :: "TransactionContext \<Rightarrow> ProjectedRow \<Rightarrow> TupleSlot \<Rightarrow> Index \<Rightarrow> bool \<times> Index"
  InsertUnique :: "TransactionContext \<Rightarrow> ProjectedRow \<Rightarrow> TupleSlot \<Rightarrow> Index \<Rightarrow> bool \<times> Index"
  GetProjectedRowInitializer :: "IndexKeySchema \<Rightarrow> col_id_t list"
  OldestTransactionStartTime :: "nat \<Rightarrow> timestamp_t"

subsection \<open>The state the index manager works on\<close>

record IndexEntry =
  indexptr :: nat
  indexrelid :: oid_t
  indrelid :: oid_t
  indnatts :: "32 word"
  indnkeyatts :: "32 word"
  indisunique :: bool
  indisprimary :: bool
  indisvalid :: bool
  indisready :: bool
  indislive :: bool

datatype event =
    Ev_Begin timestamp_t
  | Ev_BeginWithAction timestamp_t
  | Ev_Commit timestamp_t timestamp_t
  | Ev_Abort timestamp_t
  | Ev_OldestStartTime timestamp_t
  | Ev_AddEntry timestamp_t oid_t IndexEntry
  | Ev_SetEntryColumn timestamp_t oid_t string bool
  | Ev_DeleteEntry timestamp_t oid_t
  | Ev_SetIndexBuildingFlag index_id bool
  | Ev_DeleteIndex nat

text \<open>
  The state: the transaction manager's timestamp counter, the number of calls of
  \<open>OldestTransactionStartTime\<close> so far, the catalog's oid counter and index table
  (\<open>pg_index\<close>, by index oid), the index objects on the heap (by address), the index
  manager's map of building flags, and the trace of what has been done, in order.
\<close>

record world =
  time :: timestamp_t
  polls :: nat
  next_oid :: oid_t
  pg_index :: "oid_t \<rightharpoonup> IndexEntry"
  index_heap :: "nat \<rightharpoonup> Index"
  next_addr :: nat
  building_flags :: "index_id \<rightharpoonup> bool"
  trace :: "event list"

definition log_event :: "event \<Rightarrow> world \<Rightarrow> world" where
  "log_event e w = w\<lparr>trace := trace w @ [e]\<rparr>"

subsection \<open>Transaction manager and catalog\<close>

text \<open>
  Modelled from the spec: the transaction manager (\<open>begin() -> txn\<close>,
  \<open>begin_with_action(fn) -> txn\<close>, \<open>commit(txn) -> ts\<close> with an optional post-commit
  callback, \<open>abort(txn)\<close>), which lies outside the sources verified here. Begin and commit take the next
  timestamp of the counter; the action of \<open>BeginTransactionWithAction\<close> runs at the
  begin; a commit runs its callback when one is given. The index manager's procedures
  write nothing in a transaction they abort, so \<open>Abort\<close> has nothing to undo here.
\<close>

definition BeginTransaction :: "world \<Rightarrow> TransactionContext \<times> world" where
  "BeginTransaction w =
     (\<lparr>StartTime = time w\<rparr>, log_event (Ev_Begin (time w)) (w\<lparr>time := Suc (time w)\<rparr>))"

definition BeginTransactionWithAction :: "(world \<Rightarrow> world) \<Rightarrow> world \<Rightarrow> TransactionContext \<times> world" where
  "BeginTransactionWithAction action w =
     (\<lparr>StartTime = time w\<rparr>,
      action (log_event (Ev_BeginWithAction (time w)) (w\<lparr>time := Suc (time w)\<rparr>)))"

definition Commit :: "TransactionContext \<Rightarrow> (world \<Rightarrow> world) option \<Rightarrow> world \<Rightarrow> timestamp_t \<times> world" where
  "Commit txn callback w =
     (let commit_time = time w;
          w1 = log_event (Ev_Commit (StartTime txn) commit_time) (w\<lparr>time := Suc (time w)\<rparr>)
      in (commit_time, case callback of None \<Rightarrow> w1 | Some f \<Rightarrow> f w1))"

definition Abort :: "TransactionContext \<Rightarrow> world \<Rightarrow> world" where
  "Abort txn w = log_event (Ev_Abort (StartTime txn)) w"

text \<open>
  The loop \<open>while (txn_mgr->OldestTransactionStartTime() < commit_time) {}\<close>. It may
  spin forever: \<open>None\<close> is the loop that never ends.
\<close>

partial_function (option) wait_for_oldest :: "(nat \<Rightarrow> timestamp_t) \<Rightarrow> timestamp_t \<Rightarrow> world \<Rightarrow> world option" where
  "wait_for_oldest oldest commit_time w =
     (let t = oldest (polls w);
          w1 = log_event (Ev_OldestStartTime t) (w\<lparr>polls := Suc (polls w)\<rparr>)
      in if t < commit_time then wait_for_oldest oldest commit_time w1 else Some w1)"

declare wait_for_oldest.simps [code]

text \<open>
  Modelled from the spec: the catalog's \<open>GetNextOid\<close> and the index handle
  (\<open>AddEntry\<close>, \<open>SetEntryColumn\<close>, \<open>GetIndexEntry\<close>, \<open>DeleteEntry\<close>), which lie outside
  the sources verified here: typed accessors over the rows of the index catalog, identified by index oid.
\<close>

definition GetNextOid :: "world \<Rightarrow> oid_t \<times> world" where
  "GetNextOid w = (next_oid w, w\<lparr>next_oid := next_oid w + 1\<rparr>)"

definition AddEntry ::
  "TransactionContext \<Rightarrow> nat \<Rightarrow> oid_t \<Rightarrow> oid_t \<Rightarrow> 32 word \<Rightarrow> 32 word \<Rightarrow>
   bool \<Rightarrow> bool \<Rightarrow> bool \<Rightarrow> bool \<Rightarrow> bool \<Rightarrow> world \<Rightarrow> world" where
  "AddEntry txn index index_oid table_oid natts nkeyatts
            isunique isprimary isvalid isready islive w =
     (let entry = \<lparr>indexptr = index, indexrelid = index_oid, indrelid = table_oid,
                   indnatts = natts, indnkeyatts = nkeyatts, indisunique = isunique,
                   indisprimary = isprimary, indisvalid = isvalid, indisready = isready,
                   indislive = islive\<rparr>
      in log_event (Ev_AddEntry (StartTime txn) index_oid entry)
           (w\<lparr>pg_index := (pg_index w)(index_oid \<mapsto> entry)\<rparr>))"

definition set_column :: "string \<Rightarrow> bool \<Rightarrow> IndexEntry \<Rightarrow> IndexEntry" where
  "set_column col v e =
     (if col = ''indisunique'' then e\<lparr>indisunique := v\<rparr>
      else if col = ''indisprimary'' then e\<lparr>indisprimary := v\<rparr>
      else if col = ''indisvalid'' then e\<lparr>indisvalid := v\<rparr>
      else if col = ''indisready'' then e\<lparr>indisready := v\<rparr>
      else if col = ''indislive'' then e\<lparr>indislive := v\<rparr>
      else e)"

definition SetEntryColumn :: "TransactionContext \<Rightarrow> oid_t \<Rightarrow> string \<Rightarrow> bool \<Rightarrow> world \<Rightarrow> world" where
  "SetEntryColumn txn index_oid col v w =
     log_event (Ev_SetEntryColumn (StartTime txn) index_oid col v)
       (case pg_index w index_oid of
          None \<Rightarrow> w
        | Some e \<Rightarrow> w\<lparr>pg_index := (pg_index w)(index_oid \<mapsto> set_column col v e)\<rparr>)"

definition GetIndexEntry :: "TransactionContext \<Rightarrow> oid_t \<Rightarrow> world \<Rightarrow> IndexEntry option" where
  "GetIndexEntry txn index_oid w = pg_index w index_oid"

definition DeleteEntry :: "TransactionContext \<Rightarrow> IndexEntry option \<Rightarrow> world \<Rightarrow> world" where
  "DeleteEntry txn entry w =
     (case entry of
        None \<Rightarrow> w
      | Some e \<Rightarrow> log_event (Ev_DeleteEntry (StartTime txn) (indexrelid e))
                   (w\<lparr>pg_index := (pg_index w)(indexrelid e := None)\<rparr>))"

subsection \<open>The index manager's procedures\<close>

definition make_index_id :: "oid_t \<Rightarrow> oid_t \<Rightarrow> oid_t \<Rightarrow> index_id" where
  "make_index_id db_oid ns_oid index_oid = (db_oid, ns_oid, index_oid)"

definition SetIndexBuildingFlag :: "index_id \<Rightarrow> bool \<Rightarrow> world \<Rightarrow> world" where
  "SetIndexBuildingFlag key flag w =
     log_event (Ev_SetIndexBuildingFlag key flag)
       (w\<lparr>building_flags := (building_flags w)(key \<mapsto> flag)\<rparr>)"

text \<open>
  \<open>GetEmptyIndex\<close>: the loop over the key attributes that fills the key schema
  (\<open>None\<close> when an attribute has no catalog entry), then the factory's \<open>Build\<close>, which
  puts an empty index at a fresh address. The result is the address, or \<open>nullptr\<close>.
\<close>

fun fill_key_schema ::
  "collaborators \<Rightarrow> TransactionContext \<Rightarrow> oid_t \<Rightarrow> oid_t \<Rightarrow> string list \<Rightarrow>
   IndexKeySchema \<Rightarrow> IndexKeySchema option" where
  "fill_key_schema env txn db_oid table_oid [] ks = Some ks"
| "fill_key_schema env txn db_oid table_oid (key_name # rest) ks =
     (case GetAttributeEntry env txn db_oid table_oid key_name of
        None \<Rightarrow> None
      | Some entry \<Rightarrow>
          (let type_id = atttypid entry in
           if is_VARLEN_COLUMN env type_id
           then fill_key_schema env txn db_oid table_oid rest
                  (ks @ [\<lparr>key_oid = word_of_int (attr_oid entry), key_type_id = type_id,
                          key_nullable = ColumnIsNull entry key_name,
                          key_max_varlen_size = None\<rparr>])
           else fill_key_schema env txn db_oid table_oid rest
                  (ks @ [\<lparr>key_oid = word_of_int (attr_oid entry), key_type_id = type_id,
                          key_nullable = ColumnIsNull entry key_name,
                          key_max_varlen_size = Some (attlen entry)\<rparr>])))"

definition GetEmptyIndex ::
  "collaborators \<Rightarrow> TransactionContext \<Rightarrow> oid_t \<Rightarrow> oid_t \<Rightarrow> oid_t \<Rightarrow> bool \<Rightarrow> string list \<Rightarrow>
   world \<Rightarrow> nat option \<times> world" where
  "GetEmptyIndex env txn db_oid table_oid index_oid unique_index key_attrs w =
     (let constraint = (if unique_index then UNIQUE else DEFAULT) in
      case fill_key_schema env txn db_oid table_oid key_attrs [] of
        None \<Rightarrow> (None, w)
      | Some ks \<Rightarrow>
          (Some (next_addr w),
           w\<lparr>index_heap := (index_heap w)(next_addr w \<mapsto>
                \<lparr>index_oid_of = index_oid, constraint_type = constraint,
                 key_schema = ks, contents = []\<rparr>),
             next_addr := Suc (next_addr w)\<rparr>))"

datatype index_error = ColumnIdOutOfRange | DanglingPointer | NullDereference

text \<open>
  The loops \<open>for (i = 0; i < select_pr->NumColumns(); ++i) select_pr->ColumnIds()[i] = src[i]\<close>
  of \<open>PopulateIndex\<close>: the row's column ids become the first \<open>NumColumns\<close> ids of the
  source; a source with fewer ids is read out of range.
\<close>

definition copy_column_ids :: "col_id_t list \<Rightarrow> ProjectedRow \<Rightarrow> ProjectedRow option" where
  "copy_column_ids src pr =
     (if NumColumns pr \<le> length src
      then Some (pr\<lparr>ColumnIds := take (NumColumns pr) src\<rparr>)
      else None)"

text \<open>
  The scan of \<open>PopulateIndex\<close> over the table's slots. \<open>break\<close> leaves the loop with
  \<open>success = false\<close>.
\<close>

fun populate_scan ::
  "collaborators \<Rightarrow> TransactionContext \<Rightarrow> SqlTable \<Rightarrow> bool \<Rightarrow> col_id_t list \<Rightarrow> col_id_t list \<Rightarrow>
   TupleSlot list \<Rightarrow> ProjectedRow \<Rightarrow> Index \<Rightarrow> index_error + (bool \<times> Index)" where
  "populate_scan env txn sql_table unique_index indkey_ids sql_table_cols [] select_pr index =
     Inr (True, index)"
| "populate_scan env txn sql_table unique_index indkey_ids sql_table_cols (it # rest) select_pr index =
     (case Select sql_table txn it (ColumnIds select_pr) of
        None \<Rightarrow> populate_scan env txn sql_table unique_index indkey_ids sql_table_cols
                  rest select_pr index
      | Some vs \<Rightarrow>
          (case copy_column_ids indkey_ids (select_pr\<lparr>attr_values := vs\<rparr>) of
             None \<Rightarrow> Inl ColumnIdOutOfRange
           | Some key_pr \<Rightarrow>
               (let (ok, index1) = (if unique_index
                                    then InsertUnique env txn key_pr it index
                                    else Insert env txn key_pr it index)
                in if \<not> ok then Inr (False, index1)
                   else (case copy_column_ids sql_table_cols key_pr of
                           None \<Rightarrow> Inl ColumnIdOutOfRange
                         | Some select_pr1 \<Rightarrow>
                             populate_scan env txn sql_table unique_index indkey_ids
                               sql_table_cols rest select_pr1 index1))))"

definition PopulateIndex ::
  "collaborators \<Rightarrow> TransactionContext \<Rightarrow> SqlTable \<Rightarrow> Index \<Rightarrow> bool \<Rightarrow> index_error + (bool \<times> Index)" where
  "PopulateIndex env txn sql_table index unique_index =
     (let index_key_schema = key_schema index;
          indkey_pr = \<lparr>ColumnIds = GetProjectedRowInitializer env index_key_schema,
                       attr_values = []\<rparr>;
          col_oids = map key_oid index_key_schema;
          select_pr = \<lparr>ColumnIds = InitializerForProjectedRow sql_table col_oids,
                       attr_values = []\<rparr>;
          sql_table_cols = ColumnIds select_pr
      in populate_scan env txn sql_table unique_index (ColumnIds indkey_pr) sql_table_cols
           (slots sql_table) select_pr index)"

text \<open>
  \<open>CreateConcurrently\<close>, in the three parts its comments name: the first transaction
  (up to its commit), the wait, the second transaction. The first part either returns
  from the procedure (\<open>Inl\<close>, after an abort) or hands on the commit time, the table,
  the index oid and the index's address.
\<close>

definition CreateConcurrently_txn1 ::
  "collaborators \<Rightarrow> oid_t \<Rightarrow> oid_t \<Rightarrow> oid_t \<Rightarrow> bool \<Rightarrow> string list \<Rightarrow> string list \<Rightarrow> world \<Rightarrow>
   world + (timestamp_t \<times> SqlTable \<times> oid_t \<times> nat \<times> world)" where
  "CreateConcurrently_txn1 env db_oid ns_oid table_oid unique_index index_attrs key_attrs w =
     (let (txn1, w1) = BeginTransaction w in
      case GetUserTable env txn1 db_oid ns_oid table_oid of
        None \<Rightarrow> Inl (Abort txn1 w1)
      | Some sql_table \<Rightarrow>
          (let (index_oid, w2) = GetNextOid w1;
               natts = word_of_nat (length index_attrs);
               nkeyatts = word_of_nat (length key_attrs);
               isunique = unique_index;
               isprimary = False;
               isvalid = False;
               isready = True;
               islive = False
           in case GetEmptyIndex env txn1 db_oid table_oid index_oid isunique key_attrs w2 of
                (None, w3) \<Rightarrow> Inl (Abort txn1 w3)
              | (Some index, w3) \<Rightarrow>
                  (let w4 = AddEntry txn1 index index_oid table_oid natts nkeyatts
                              isunique isprimary isvalid isready islive w3;
                       index_id = make_index_id db_oid ns_oid index_oid;
                       w5 = SetIndexBuildingFlag index_id False w4;
                       (commit_time, w6) = Commit txn1 None w5
                   in Inr (commit_time, sql_table, index_oid, index, w6))))"

definition CreateConcurrently_txn2 ::
  "collaborators \<Rightarrow> oid_t \<Rightarrow> oid_t \<Rightarrow> bool \<Rightarrow> SqlTable \<Rightarrow> oid_t \<Rightarrow> nat \<Rightarrow> world \<Rightarrow>
   index_error + world" where
  "CreateConcurrently_txn2 env db_oid ns_oid unique_index sql_table index_oid index w =
     (let index_id = make_index_id db_oid ns_oid index_oid;
          (build_txn, w1) = BeginTransactionWithAction (SetIndexBuildingFlag index_id True) w;
          w2 = SetEntryColumn build_txn index_oid ''indisready'' False w1
      in case index_heap w2 index of
           None \<Rightarrow> Inl DanglingPointer
         | Some index_obj \<Rightarrow>
             (case PopulateIndex env build_txn sql_table index_obj unique_index of
                Inl e \<Rightarrow> Inl e
              | Inr (populated, index_obj1) \<Rightarrow>
                  (let w3 = w2\<lparr>index_heap := (index_heap w2)(index \<mapsto> index_obj1)\<rparr>;
                       w4 = SetEntryColumn build_txn index_oid ''indisvalid'' populated w3;
                       (commit_time, w5) = Commit build_txn None w4
                   in Inr w5)))"

definition CreateConcurrently ::
  "collaborators \<Rightarrow> oid_t \<Rightarrow> oid_t \<Rightarrow> oid_t \<Rightarrow> 'index_type \<Rightarrow> bool \<Rightarrow> string \<Rightarrow>
   string list \<Rightarrow> string list \<Rightarrow> world \<Rightarrow> (index_error + world) option" where
  "CreateConcurrently env db_oid ns_oid table_oid index_type unique_index index_name
                      index_attrs key_attrs w =
     (case CreateConcurrently_txn1 env db_oid ns_oid table_oid unique_index index_attrs key_attrs w of
        Inl w1 \<Rightarrow> Some (Inr w1)
      | Inr (commit_time, sql_table, index_oid, index, w1) \<Rightarrow>
          (case wait_for_oldest (OldestTransactionStartTime env) commit_time w1 of
             None \<Rightarrow> None
           | Some w2 \<Rightarrow>
               Some (CreateConcurrently_txn2 env db_oid ns_oid unique_index sql_table
                       index_oid index w2)))"


text \<open>
  \<open>Drop\<close>. The entry fetched may be \<open>nullptr\<close>; it is dereferenced after the wait.
  \<open>delete index\<close> frees the index object at the address in the entry's \<open>indexptr\<close>.
\<close>

definition delete_index :: "nat \<Rightarrow> world \<Rightarrow> index_error + world" where
  "delete_index addr w =
     (case index_heap w addr of
        None \<Rightarrow> Inl DanglingPointer
      | Some obj \<Rightarrow> Inr (log_event (Ev_DeleteIndex addr)
                          (w\<lparr>index_heap := (index_heap w)(addr := None)\<rparr>)))"

definition Drop ::
  "collaborators \<Rightarrow> oid_t \<Rightarrow> oid_t \<Rightarrow> oid_t \<Rightarrow> oid_t \<Rightarrow> string \<Rightarrow> world \<Rightarrow>
   (index_error + world) option" where
  "Drop env db_oid ns_oid table_oid index_oid index_name w =
     (let (txn, w1) = BeginTransaction w in
      case GetUserTable env txn db_oid ns_oid table_oid of
        None \<Rightarrow> Some (Inr (Abort txn w1))
      | Some sql_table \<Rightarrow>
          (let index_entry = GetIndexEntry txn index_oid w1;
               w2 = DeleteEntry txn index_entry w1;
               (commit_time, w3) = Commit txn None w2
           in case wait_for_oldest (OldestTransactionStartTime env) commit_time w3 of
                None \<Rightarrow> None
              | Some w4 \<Rightarrow>
                  (case index_entry of
                     None \<Rightarrow> Some (Inl NullDereference)
                   | Some e \<Rightarrow> Some (delete_index (indexptr e) w4))))"

text \<open>
  What the claims about \<open>PopulateIndex\<close> speak of: the rows of the table visible to the
  transaction, in scan order, the key each one gives, and a run of inserts.
\<close>

definition visible_rows ::
  "SqlTable \<Rightarrow> TransactionContext \<Rightarrow> col_id_t list \<Rightarrow> (TupleSlot \<times> attr_value list) list" where
  "visible_rows sql_table txn cols =
     List.map_filter (\<lambda>it. map_option (Pair it) (Select sql_table txn it cols)) (slots sql_table)"

definition index_keys ::
  "collaborators \<Rightarrow> TransactionContext \<Rightarrow> SqlTable \<Rightarrow> Index \<Rightarrow> (ProjectedRow \<times> TupleSlot) list" where
  "index_keys env txn sql_table index =
     (let cols = InitializerForProjectedRow sql_table (map key_oid (key_schema index));
          indkey_ids = GetProjectedRowInitializer env (key_schema index)
      in map (\<lambda>(it, vs). (\<lparr>ColumnIds = take (length cols) indkey_ids, attr_values = vs\<rparr>, it))
           (visible_rows sql_table txn cols))"

definition index_insert ::
  "collaborators \<Rightarrow> bool \<Rightarrow> TransactionContext \<Rightarrow> ProjectedRow \<times> TupleSlot \<Rightarrow> Index \<Rightarrow> bool \<times> Index" where
  "index_insert env unique_index txn k index =
     (if unique_index then InsertUnique env txn (fst k) (snd k) index
      else Insert env txn (fst k) (snd k) index)"

fun inserts_succeed :: "('k \<Rightarrow> 'i \<Rightarrow> bool \<times> 'i) \<Rightarrow> 'k list \<Rightarrow> 'i \<Rightarrow> bool" where
  "inserts_succeed ins [] index = True"
| "inserts_succeed ins (k # ks) index =
     (fst (ins k index) \<and> inserts_succeed ins ks (snd (ins k index)))"

definition after_inserts :: "('k \<Rightarrow> 'i \<Rightarrow> bool \<times> 'i) \<Rightarrow> 'k list \<Rightarrow> 'i \<Rightarrow> 'i" where
  "after_inserts ins ks index = foldl (\<lambda>ix k. snd (ins k ix)) index ks"

fun insert_until_failure :: "('k \<Rightarrow> 'i \<Rightarrow> bool \<times> 'i) \<Rightarrow> 'k list \<Rightarrow> 'i \<Rightarrow> bool \<times> 'i" where
  "insert_until_failure ins [] index = (True, index)"
| "insert_until_failure ins (k # ks) index =
     (if fst (ins k index) then insert_until_failure ins ks (snd (ins k index))
      else (False, snd (ins k index)))"

text \<open>The entry the first transaction of \<open>CreateConcurrently\<close> adds to the index catalog.\<close>

definition initial_index_entry :: "nat \<Rightarrow> oid_t \<Rightarrow> oid_t \<Rightarrow> bool \<Rightarrow> string list \<Rightarrow> string list \<Rightarrow> IndexEntry" where
  "initial_index_entry index index_oid table_oid unique_index index_attrs key_attrs =
     \<lparr>indexptr = index, indexrelid = index_oid, indrelid = table_oid,
      indnatts = word_of_nat (length index_attrs), indnkeyatts = word_of_nat (length key_attrs),
      indisunique = unique_index, indisprimary = False, indisvalid = False,
      indisready = True, indislive = False\<rparr>"

subsection \<open>A small instance\<close>

text \<open>
  A table of four slots (slot 1 is not visible; slots 0 and 2 hold the same key), a
  catalog with table 30 and its attribute \<open>a\<close>, an index kept as a list whose
  \<open>InsertUnique\<close> refuses a key it already holds, and a transaction manager whose oldest
  active start time is 0 at the first two calls and 10 from then on.
\<close>

definition example_table :: SqlTable where
  "example_table =
     \<lparr>slots = [0, 1, 2, 3],
      Select = (\<lambda>txn it cols. if it = 1 then None
                               else Some (map (\<lambda>c. Some (if it = 3 then 9 else 7)) cols)),
      InitializerForProjectedRow = (\<lambda>col_oids. map unat col_oids)\<rparr>"

definition example_env :: collaborators where
  "example_env =
     \<lparr>GetUserTable = (\<lambda>txn db_oid ns_oid table_oid.
                        if table_oid = 30 then Some example_table else None),
      GetAttributeEntry = (\<lambda>txn db_oid table_oid name.
                        if name = ''a''
                        then Some \<lparr>attr_oid = 1, atttypid = 4, attlen = 4,
                                   ColumnIsNull = (\<lambda>c. False)\<rparr>
                        else None),
      is_VARLEN_COLUMN = (\<lambda>type_id. False),
      Insert = (\<lambda>txn key it index. (True, index\<lparr>contents := contents index @ [(key, it)]\<rparr>)),
      InsertUnique = (\<lambda>txn key it index.
                        if attr_values key \<in> set (map (\<lambda>e. attr_values (fst e)) (contents index))
                        then (False, index)
                        else (True, index\<lparr>contents := contents index @ [(key, it)]\<rparr>)),
      GetProjectedRowInitializer = (\<lambda>ks. map Suc [0 ..< length ks]),
      OldestTransactionStartTime = (\<lambda>k. if k < 2 then 0 else 10)\<rparr>"

definition example_index :: "bool \<Rightarrow> Index" where
  "example_index unique_index =
     \<lparr>index_oid_of = 100, constraint_type = (if unique_index then UNIQUE else DEFAULT),
      key_schema = [\<lparr>key_oid = 1, key_type_id = 4, key_nullable = False,
                     key_max_varlen_size = Some 4\<rparr>],
      contents = []\<rparr>"

definition example_world :: world where
  "example_world =
     \<lparr>time = 3, polls = 0, next_oid = 100, pg_index = Map.empty, index_heap = Map.empty,
      next_addr = 0, building_flags = Map.empty, trace = []\<rparr>"

section \<open>Properties of the intrinsic call checks\<close>

lemma CheckArgCount_True:
  "CheckArgCount call n ds = (True, ds') \<Longrightarrow> num_args call = n \<and> ds' = ds"
  by (auto simp: CheckArgCount_def split: if_splits)

lemma CheckArgCount_False:
  "CheckArgCount call n ds = (False, ds') \<Longrightarrow>
     num_args call \<noteq> n \<and>
     ds' = ds @ [MismatchedCallArgs (position call) (GetFuncName call) n (num_args call)]"
  by (auto simp: CheckArgCount_def split: if_splits)

text \<open>
  \<open>CheckBuiltinIndexIteratorInit\<close> asks for two arguments and then reads a third: it
  never sets the call's type. With two arguments that pass the first two tests the read
  of argument 2 is out of range.
\<close>

lemma IndexIteratorInit_never_resolves:
  assumes "CheckBuiltinIndexIteratorInit call ds = Some (call', ds')"
  shows "call' = call \<and> length ds' = Suc (length ds)"
proof (cases "num_args call = 2")
  case False
  with assms show ?thesis
    by (auto simp: CheckBuiltinIndexIteratorInit_def CheckArgCount_def)
next
  case True
  then have "arg call 2 = None"
    by (simp add: arg_def num_args_def)
  with True assms show ?thesis
    by (auto simp: CheckBuiltinIndexIteratorInit_def CheckArgCount_def
          ReportIncorrectCallArg_def Option.bind_eq_Some_conv split: if_splits)
qed

lemma IndexIteratorInit_two_args_out_of_range:
  assumes "arguments call = [a0, a1]"
    and "IsPointerToSpecificBuiltin (expr_type a0) IndexIterator"
    and "IsStringType (expr_type a1)"
  shows "CheckBuiltinIndexIteratorInit call ds = None"
  using assms
  by (simp add: CheckBuiltinIndexIteratorInit_def CheckArgCount_def num_args_def arg_def)

text \<open>
  C5. The claim: a call of \<open>IndexIteratorInit\<close> is accepted exactly when it has the three
  arguments (pointer to IndexIterator, string, pointer to ExecutionContext), and then
  resolves to nil. The code at such a call: the count check against 2 fails, one
  mismatched-count diagnostic is reported and the call's type stays unset.
\<close>

theorem IndexIteratorInit_three_args_rejected:
  "CheckBuiltinIndexIteratorInit
     \<lparr>position = 7, GetFuncName = ''indexIteratorInit'',
      arguments = [\<lparr>expr_type = PointerType (BuiltinType IndexIterator), IsStringLiteral = False\<rparr>,
                   \<lparr>expr_type = StringType, IsStringLiteral = True\<rparr>,
                   \<lparr>expr_type = PointerType (BuiltinType ExecutionContext), IsStringLiteral = False\<rparr>],
      call_type = None\<rparr> []
   = Some (\<lparr>position = 7, GetFuncName = ''indexIteratorInit'',
            arguments = [\<lparr>expr_type = PointerType (BuiltinType IndexIterator), IsStringLiteral = False\<rparr>,
                         \<lparr>expr_type = StringType, IsStringLiteral = True\<rparr>,
                         \<lparr>expr_type = PointerType (BuiltinType ExecutionContext), IsStringLiteral = False\<rparr>],
            call_type = None\<rparr>,
           [MismatchedCallArgs 7 ''indexIteratorInit'' 2 3])"
  by (simp add: CheckBuiltinIndexIteratorInit_def CheckArgCount_def num_args_def)

text \<open>
  What the \<open>AggHashTableProcessBatch\<close> case accepts: seven arguments, the second any
  pointer other than a pointer to a pointer to \<open>Uint64\<close>, then four functions and a bool.
\<close>

lemma AggHashTableProcessBatch_case_accepts:
  assumes "arguments call = [a0, a1, a2, a3, a4, a5, a6]"
    and "expr_type a1 = PointerType t" and "t \<noteq> PointerType (BuiltinType Uint64)"
    and "IsFunctionType (expr_type a2)" and "IsFunctionType (expr_type a3)"
    and "IsFunctionType (expr_type a4)" and "IsFunctionType (expr_type a5)"
    and "expr_type a6 = BuiltinType Bool_kind"
  shows "AggHashTableProcessBatch_case call ds = Some (set_type call (BuiltinType Nil_kind), ds)"
proof -
  have "\<not> IsPointerToSpecificBuiltin t Uint64"
    using assms(3) by (cases t) (auto simp: IsPointerToSpecificBuiltin_def IsSpecificBuiltin_def)
  with assms show ?thesis
    by (simp add: AggHashTableProcessBatch_case_def CheckArgCount_def num_args_def arg_def
          AreAllFunctions_def IsBoolType_def IsSpecificBuiltin_def GetBuiltinType_def)
qed

text \<open>
  C6. The claim: \<open>AggHashTableProcessBatch\<close> is accepted exactly when its second argument
  is a pointer to a pointer to ProjectedColumnsIterator (and the rest fits); any other
  second argument is rejected with a diagnostic. The code at a call whose second
  argument is a pointer to \<open>Int32\<close>: accepted, resolved to nil, no diagnostic.
\<close>

theorem AggHashTableProcessBatch_accepts_int32_pointer:
  "CheckBuiltinAggHashTableCall
     \<lparr>position = 3, GetFuncName = ''aggHTProcessBatch'',
      arguments = [\<lparr>expr_type = PointerType (BuiltinType AggregationHashTable), IsStringLiteral = False\<rparr>,
                   \<lparr>expr_type = PointerType (BuiltinType Int32), IsStringLiteral = False\<rparr>,
                   \<lparr>expr_type = FunctionType [] (BuiltinType Uint64), IsStringLiteral = False\<rparr>,
                   \<lparr>expr_type = FunctionType [] (BuiltinType Bool_kind), IsStringLiteral = False\<rparr>,
                   \<lparr>expr_type = FunctionType [] (BuiltinType Nil_kind), IsStringLiteral = False\<rparr>,
                   \<lparr>expr_type = FunctionType [] (BuiltinType Nil_kind), IsStringLiteral = False\<rparr>,
                   \<lparr>expr_type = BuiltinType Bool_kind, IsStringLiteral = False\<rparr>],
      call_type = None\<rparr> AggHashTableProcessBatch []
   = Some (\<lparr>position = 3, GetFuncName = ''aggHTProcessBatch'',
      arguments = [\<lparr>expr_type = PointerType (BuiltinType AggregationHashTable), IsStringLiteral = False\<rparr>,
                   \<lparr>expr_type = PointerType (BuiltinType Int32), IsStringLiteral = False\<rparr>,
                   \<lparr>expr_type = FunctionType [] (BuiltinType Uint64), IsStringLiteral = False\<rparr>,
                   \<lparr>expr_type = FunctionType [] (BuiltinType Bool_kind), IsStringLiteral = False\<rparr>,
                   \<lparr>expr_type = FunctionType [] (BuiltinType Nil_kind), IsStringLiteral = False\<rparr>,
                   \<lparr>expr_type = FunctionType [] (BuiltinType Nil_kind), IsStringLiteral = False\<rparr>,
                   \<lparr>expr_type = BuiltinType Bool_kind, IsStringLiteral = False\<rparr>],
      call_type = Some (BuiltinType Nil_kind)\<rparr>, [])"
  by (simp add: CheckBuiltinAggHashTableCall_def CheckArgCountAtLeast_def
        AggHashTableProcessBatch_case_def CheckArgCount_def num_args_def arg_def
        IsPointerToSpecificBuiltin_def IsSpecificBuiltin_def AreAllFunctions_def
        IsBoolType_def GetBuiltinType_def set_type_def)

text \<open>
  The \<open>TableIterAdvance\<close> case never looks at the argument count: whatever follows a
  first argument of type pointer to TableVectorIterator, the call resolves to bool and
  nothing is reported.
\<close>

lemma TableIterAdvance_ignores_extra_arguments:
  assumes "arguments call = a0 # rest"
    and "expr_type a0 = PointerType (BuiltinType TableVectorIterator)"
  shows "CheckBuiltinTableIterCall call TableIterAdvance ds
           = Some (set_type call (BuiltinType Bool_kind), ds)"
  using assms
  by (simp add: CheckBuiltinTableIterCall_def arg_def IsPointerToSpecificBuiltin_def
        IsSpecificBuiltin_def GetBuiltinType_def)

text \<open>
  C7. The claim: a call of \<open>TableIterAdvance\<close> with extra arguments after a valid first
  argument gets exactly one diagnostic and stays unresolved. The code at the call
  \<open>TableIterAdvance(&tvi, x)\<close> with \<open>x\<close> of type \<open>Int32\<close>: resolved to bool, no
  diagnostic.
\<close>

theorem TableIterAdvance_two_args_accepted:
  "CheckBuiltinTableIterCall
     \<lparr>position = 5, GetFuncName = ''tableIterAdvance'',
      arguments = [\<lparr>expr_type = PointerType (BuiltinType TableVectorIterator), IsStringLiteral = False\<rparr>,
                   \<lparr>expr_type = BuiltinType Int32, IsStringLiteral = False\<rparr>],
      call_type = None\<rparr> TableIterAdvance []
   = Some (\<lparr>position = 5, GetFuncName = ''tableIterAdvance'',
      arguments = [\<lparr>expr_type = PointerType (BuiltinType TableVectorIterator), IsStringLiteral = False\<rparr>,
                   \<lparr>expr_type = BuiltinType Int32, IsStringLiteral = False\<rparr>],
      call_type = Some (BuiltinType Bool_kind)\<rparr>, [])"
  by (simp add: CheckBuiltinTableIterCall_def arg_def IsPointerToSpecificBuiltin_def
        IsSpecificBuiltin_def GetBuiltinType_def set_type_def)

section \<open>Properties of the pipeline\<close>

text \<open>
  \<open>Add\<close> appends to the vector and leaves the cursor alone; \<open>NextStep\<close> walks the cursor
  down from where it stands. So a pipeline built by \<open>Add\<close> alone returns the first
  \<open>pipeline_index\<close> translators in reverse, not the ones added last, and for every
  initial value of the cursor some built pipeline does not return its translators
  tail first.
\<close>

lemma Add_all_fields:
  "pipeline_index (Add_all p ts par) = pipeline_index p \<and>
   pipeline_vec (Add_all p ts par) = pipeline_vec p @ ts"
  by (induction ts arbitrary: p) (simp_all add: Add_def)

lemma NextStep_times_cursor:
  "pipeline_index p \<le> length (pipeline_vec p) \<Longrightarrow>
   NextStep_times k p =
     Inr (map Some (take k (rev (take (pipeline_index p) (pipeline_vec p))))
            @ replicate (k - pipeline_index p) None,
          p\<lparr>pipeline_index := pipeline_index p - k\<rparr>)"
proof (induction k arbitrary: p)
  case 0
  then show ?case by simp
next
  case (Suc k)
  show ?case
  proof (cases "pipeline_index p")
    case 0
    with Suc.IH [of p] Suc.prems show ?thesis
      by (simp add: NextStep_def replicate_append_same)
  next
    case (Suc i)
    let ?p' = "p\<lparr>pipeline_index := i\<rparr>"
    from Suc Suc.prems have lt: "i < length (pipeline_vec p)" by simp
    then have step: "NextStep p = Inr (Some (pipeline_vec p ! i), ?p')"
      using Suc by (simp add: NextStep_def)
    have "rev (take (Suc i) (pipeline_vec p)) = pipeline_vec p ! i # rev (take i (pipeline_vec p))"
      using lt by (simp add: take_Suc_conv_app_nth)
    with Suc.IH [of ?p'] lt Suc step show ?thesis
      by simp
  qed
qed

lemma NextStep_times_built:
  assumes "i0 \<le> length ts"
  shows "\<exists>p'. NextStep_times k (Add_all (Pipeline_new i0) ts par) =
     Inr (map Some (take k (rev (take i0 ts))) @ replicate (k - i0) None, p')"
  using NextStep_times_cursor [of "Add_all (Pipeline_new i0) ts par" k] assms
  by (simp add: Add_all_fields Pipeline_new_def)

lemma tail_first_fails_for_every_initial_index:
  "NextStep_times (Suc (Suc i0)) (Add_all (Pipeline_new i0) (replicate (Suc i0) t) par)
     \<noteq> Inr (map Some (rev (replicate (Suc i0) t)) @ [None], p')"
proof -
  obtain q where q: "NextStep_times (Suc (Suc i0)) (Add_all (Pipeline_new i0) (replicate (Suc i0) t) par)
     = Inr (map Some (take (Suc (Suc i0)) (rev (take i0 (replicate (Suc i0) t)))) @ replicate (Suc (Suc i0) - i0) None, q)"
    using NextStep_times_built [of i0 "replicate (Suc i0) t" "Suc (Suc i0)" par] by auto
  have "(map Some (take (Suc (Suc i0)) (rev (take i0 (replicate (Suc i0) t)))) @ replicate (Suc (Suc i0) - i0) None) ! i0 = None"
    by (simp add: nth_append Suc_diff_le)
  moreover have "(map Some (rev (replicate (Suc i0) t)) @ [None]) ! i0 = Some t"
    by (simp add: nth_append)
  ultimately show ?thesis using q by auto
qed

text \<open>
  C9. The claim: after \<open>Add(t1), ..., Add(tn)\<close>, \<open>NextStep\<close> returns \<open>tn, ..., t1\<close> and then
  \<open>nullptr\<close>. The code on a pipeline whose cursor starts at 0, after \<open>Add(1), Add(2)\<close>:
  every \<open>NextStep\<close> returns \<open>nullptr\<close>.
\<close>

theorem NextStep_after_Add_returns_nullptr: "NextStep_times 3 (Add_all (Pipeline_new 0) [1::nat, 2] ()) =
   Inr ([None, None, None], \<lparr>pipeline_vec = [1, 2], pipeline_index = 0\<rparr>)"
  by (simp add: numeral_3_eq_3 NextStep_def Add_def Pipeline_new_def)

section \<open>Properties of the sort checker\<close>

text \<open>The constructor drops its argument: the checker always looks at column 0.\<close>

lemma SingleIntSortChecker_new_ignores_col_idx: "SingleIntSortChecker_new c = SingleIntSortChecker_new 0"
  by (simp add: SingleIntSortChecker_new_def)

text \<open>
  What it checks, on rows that have a column 0: no expectation fails exactly when column
  0 is nondecreasing with nulls first, whatever the constructor's argument.
\<close>

lemma process_row_col0:
  "col_idx_m c = 0 \<Longrightarrow> vals \<noteq> [] \<Longrightarrow>
   \<exists>c'. process_row c vals = Inr c' \<and> col_idx_m c' = 0 \<and> prev_val c' = hd vals \<and>
     failures c' = failures c +
       (if (if is_null (hd vals) then is_null (prev_val c)
            else is_null (prev_val c) \<or> val (prev_val c) \<le> val (hd vals)) then 0 else 1)"
  by (cases vals) (auto simp: process_row_def EXPECT_TRUE_def Let_def)

lemma ProcessBatch_col0:
  assumes "col_idx_m c = 0" and "\<forall>vals \<in> set rows. vals \<noteq> []"
  shows "\<exists>c'. ProcessBatch c rows = Inr c' \<and> col_idx_m c' = 0
           \<and> prev_val c' = last (prev_val c # map hd rows)
           \<and> failures c \<le> failures c'
           \<and> (failures c' = failures c \<longleftrightarrow> sorted_nulls_first (prev_val c) (map hd rows))"
  using assms
proof (induction rows arbitrary: c)
  case Nil
  then show ?case by simp
next
  case (Cons vals rows)
  from Cons.prems obtain c1 where c1: "process_row c vals = Inr c1" "col_idx_m c1 = 0"
    "prev_val c1 = hd vals"
    "failures c1 = failures c +
       (if (if is_null (hd vals) then is_null (prev_val c)
            else is_null (prev_val c) \<or> val (prev_val c) \<le> val (hd vals)) then 0 else 1)"
    using process_row_col0 [of c vals] by auto
  from Cons.IH [of c1] c1(2) Cons.prems(2)
  obtain c' where c': "ProcessBatch c1 rows = Inr c'" "col_idx_m c' = 0"
    "prev_val c' = last (prev_val c1 # map hd rows)" "failures c1 \<le> failures c'"
    "failures c' = failures c1 \<longleftrightarrow> sorted_nulls_first (prev_val c1) (map hd rows)"
    by auto
  show ?case
    using c1 c' by (auto split: if_splits)
qed

lemma sorted_nulls_first_append:
  "sorted_nulls_first p (xs @ ys)
     \<longleftrightarrow> sorted_nulls_first p xs \<and> sorted_nulls_first (last (p # xs)) ys"
  by (induction xs arbitrary: p) auto

lemma last_Cons_append: "last (p # xs @ ys) = last (last (p # xs) # ys)"
  by (cases ys) (simp_all add: last_append)

lemma ProcessBatches_col0:
  assumes "col_idx_m c = 0" and "\<forall>vals \<in> set (concat batches). vals \<noteq> []"
  shows "\<exists>c'. ProcessBatches c batches = Inr c' \<and> col_idx_m c' = 0
           \<and> prev_val c' = last (prev_val c # map hd (concat batches))
           \<and> failures c \<le> failures c'
           \<and> (failures c' = failures c \<longleftrightarrow> sorted_nulls_first (prev_val c) (map hd (concat batches)))"
  using assms
proof (induction batches arbitrary: c)
  case Nil
  then show ?case by simp
next
  case (Cons rows batches)
  from Cons.prems obtain c1 where c1: "ProcessBatch c rows = Inr c1" "col_idx_m c1 = 0"
    "prev_val c1 = last (prev_val c # map hd rows)" "failures c \<le> failures c1"
    "failures c1 = failures c \<longleftrightarrow> sorted_nulls_first (prev_val c) (map hd rows)"
    using ProcessBatch_col0 [of c rows] by auto
  from Cons.IH [of c1] c1(2) Cons.prems(2)
  obtain c' where c': "ProcessBatches c1 batches = Inr c'" "col_idx_m c' = 0"
    "prev_val c' = last (prev_val c1 # map hd (concat batches))" "failures c1 \<le> failures c'"
    "failures c' = failures c1 \<longleftrightarrow> sorted_nulls_first (prev_val c1) (map hd (concat batches))"
    by auto
  have run: "ProcessBatches c (rows # batches) = Inr c'"
    using c1(1) c'(1) by simp
  have prev: "prev_val c' = last (prev_val c # map hd (concat (rows # batches)))"
    using c'(3) c1(3) by (simp add: last_Cons_append)
  have le: "failures c \<le> failures c'"
    using c1(4) c'(4) by simp
  have "failures c' = failures c \<longleftrightarrow> failures c1 = failures c \<and> failures c' = failures c1"
    using c1(4) c'(4) by auto
  also have "\<dots> \<longleftrightarrow> sorted_nulls_first (prev_val c) (map hd rows)
                 \<and> sorted_nulls_first (last (prev_val c # map hd rows)) (map hd (concat batches))"
    using c1(5) c'(5) c1(3) by simp
  also have "\<dots> \<longleftrightarrow> sorted_nulls_first (prev_val c) (map hd (concat (rows # batches)))"
    by (simp add: sorted_nulls_first_append)
  finally show ?case
    using run c'(2) prev le by blast
qed

lemma SingleIntSortChecker_checks_first_column:
  assumes "\<forall>vals \<in> set (concat batches). vals \<noteq> []"
  shows "\<exists>c. ProcessBatches (SingleIntSortChecker_new col_idx) batches = Inr c
           \<and> (failures c = 0 \<longleftrightarrow> column_sorted 0 batches)"
proof -
  have eq: "map (\<lambda>vals. vals ! 0) (concat batches) = map hd (concat batches)"
    by (rule map_cong) (use assms in \<open>auto simp: hd_conv_nth\<close>)
  have start: "col_idx_m (SingleIntSortChecker_new col_idx) = 0"
    "failures (SingleIntSortChecker_new col_idx) = 0"
    "prev_val (SingleIntSortChecker_new col_idx) = \<lparr>is_null = True, val = 0\<rparr>"
    by (simp_all add: SingleIntSortChecker_new_def)
  from ProcessBatches_col0 [OF start(1) assms]
  obtain c where "ProcessBatches (SingleIntSortChecker_new col_idx) batches = Inr c"
    "failures c = failures (SingleIntSortChecker_new col_idx) \<longleftrightarrow>
       sorted_nulls_first (prev_val (SingleIntSortChecker_new col_idx)) (map hd (concat batches))"
    by blast
  then show ?thesis
    unfolding column_sorted_def eq start by (intro exI [of _ c] conjI)
qed

text \<open>
  C8. The claim: \<open>SingleIntSortChecker(col_idx)\<close> checks column \<open>col_idx\<close>. The code for
  \<open>col_idx = 1\<close> on the rows \<open>(5, 1), (3, 2)\<close>: column 1 is sorted, yet one expectation
  fails, because column 0 is what is compared.
\<close>

theorem SingleIntSortChecker_checks_column_0: "ProcessBatches (SingleIntSortChecker_new 1)
     [[[\<lparr>is_null = False, val = 5\<rparr>, \<lparr>is_null = False, val = 1\<rparr>],
       [\<lparr>is_null = False, val = 3\<rparr>, \<lparr>is_null = False, val = 2\<rparr>]]]
   = Inr \<lparr>prev_val = \<lparr>is_null = False, val = 3\<rparr>, col_idx_m = 0, failures = 1\<rparr>
   \<and> column_sorted 1
     [[[\<lparr>is_null = False, val = 5\<rparr>, \<lparr>is_null = False, val = 1\<rparr>],
       [\<lparr>is_null = False, val = 3\<rparr>, \<lparr>is_null = False, val = 2\<rparr>]]]"
  by (simp add: SingleIntSortChecker_new_def process_row_def EXPECT_TRUE_def column_sorted_def)

section \<open>Properties of the namespace handle\<close>

text \<open>
  C10. \<open>GetNamespaceEntry\<close> returns \<open>nullptr\<close> exactly when \<open>FindRow\<close> (on column 0 with
  the oid, or on column 1 with the name) finds no row; when the lookup by name finds a
  row, the entry wraps that row and its oid is the integer read from column 0 of the
  row (converted to the 32-bit oid type, which keeps every value in range).
\<close>

theorem GetNamespaceEntry_nullptr_iff_no_row:
  "(GetNamespaceEntry_oid h txn oid = None \<longleftrightarrow> FindRow h txn 0 (OidValue oid) = None) \<and>
   (GetNamespaceEntry_name h txn name = None \<longleftrightarrow> FindRow h txn 1 (NameValue name) = None) \<and>
   (\<forall>p_row. FindRow h txn 1 (NameValue name) = Some p_row \<longrightarrow>
      (\<exists>e. GetNamespaceEntry_name h txn name = Some e \<and> entry_row e = p_row \<and>
           entry_oid e = word_of_int (GetIntColInRow h 0 p_row) \<and>
           (0 \<le> GetIntColInRow h 0 p_row \<and> GetIntColInRow h 0 p_row < 2 ^ 32 \<longrightarrow>
              uint (entry_oid e) = GetIntColInRow h 0 p_row)))"
  by (auto simp: GetNamespaceEntry_oid_def GetNamespaceEntry_name_def Let_def
        uint_word_of_int split: option.splits)

theorem GetNamespaceEntry_nullptr_iff_no_row_witness:
  "FindRow \<lparr>FindRow = (\<lambda>txn col v. if col = 1 \<and> v = NameValue ''public'' then Some [22, 0::int] else None),
            GetIntColInRow = (\<lambda>col row. row ! col), GetPRMap = ()\<rparr> (0::nat) 1 (NameValue ''public'') = Some [22, 0]
   \<and> GetNamespaceEntry_name
       \<lparr>FindRow = (\<lambda>txn col v. if col = 1 \<and> v = NameValue ''public'' then Some [22, 0::int] else None),
        GetIntColInRow = (\<lambda>col row. row ! col), GetPRMap = ()\<rparr> (0::nat) ''public''
     = Some \<lparr>entry_oid = 22, entry_row = [22, 0], entry_map = ()\<rparr>
   \<and> GetNamespaceEntry_oid
       \<lparr>FindRow = (\<lambda>txn col v. if col = 1 \<and> v = NameValue ''public'' then Some [22, 0::int] else None),
        GetIntColInRow = (\<lambda>col row. row ! col), GetPRMap = ()\<rparr> (0::nat) 22 = None"
  using GetNamespaceEntry_nullptr_iff_no_row [of "\<lparr>FindRow = (\<lambda>txn col v. if col = 1 \<and> v = NameValue ''public'' then Some [22, 0::int] else None),
        GetIntColInRow = (\<lambda>col row. row ! col), GetPRMap = ()\<rparr>" 0 22 "''public''"]
  by auto

section \<open>Properties of the index manager\<close>

subsection \<open>The wait for the oldest transaction\<close>

text \<open>
  The loop returns exactly when some call of \<open>OldestTransactionStartTime\<close> reaches the
  commit time; it has then made one call more than there were values below the commit
  time, and has changed nothing but the count of calls and the trace.
\<close>

lemma wait_for_oldest_returns:
  "(\<forall>k<n. oldest (polls w + k) < c) \<Longrightarrow> c \<le> oldest (polls w + n) \<Longrightarrow>
   wait_for_oldest oldest c w =
     Some (w\<lparr>polls := polls w + Suc n,
             trace := trace w @ map (\<lambda>k. Ev_OldestStartTime (oldest k)) [polls w ..< polls w + Suc n]\<rparr>)"
proof (induction n arbitrary: w)
  case 0
  then show ?case
    by (subst wait_for_oldest.simps) (simp add: log_event_def)
next
  case (Suc n)
  let ?w1 = "log_event (Ev_OldestStartTime (oldest (polls w))) (w\<lparr>polls := Suc (polls w)\<rparr>)"
  have first: "oldest (polls w) < c"
    using Suc.prems(1) [rule_format, of 0] by simp
  have "\<forall>k<n. oldest (polls ?w1 + k) < c"
    using Suc.prems(1) by (auto simp: log_event_def dest: spec [of _ "Suc _"])
  moreover have "c \<le> oldest (polls ?w1 + n)"
    using Suc.prems(2) by (simp add: log_event_def)
  ultimately have "wait_for_oldest oldest c ?w1 =
     Some (?w1\<lparr>polls := polls ?w1 + Suc n,
             trace := trace ?w1 @ map (\<lambda>k. Ev_OldestStartTime (oldest k)) [polls ?w1 ..< polls ?w1 + Suc n]\<rparr>)"
    by (rule Suc.IH)
  moreover have "wait_for_oldest oldest c w = wait_for_oldest oldest c ?w1"
    using first by (subst wait_for_oldest.simps) (simp add: Let_def)
  ultimately show ?case
    by (simp add: log_event_def upt_conv_Cons del: upt_Suc)
qed

lemma wait_for_oldest_Some:
  assumes "wait_for_oldest oldest c w = Some w'"
  shows "\<exists>n. (\<forall>k<n. oldest (polls w + k) < c) \<and> c \<le> oldest (polls w + n)"
proof (induction rule: wait_for_oldest.raw_induct [OF _ assms])
  case (1 f oldest c w w')
  show ?case
  proof (cases "oldest (polls w) < c")
    case False
    then have "(\<forall>k<0. oldest (polls w + k) < c) \<and> c \<le> oldest (polls w + 0)" by simp
    then show ?thesis by blast
  next
    case True
    let ?w1 = "log_event (Ev_OldestStartTime (oldest (polls w))) (w\<lparr>polls := Suc (polls w)\<rparr>)"
    from True 1(2) have "f oldest c ?w1 = Some w'" by (simp add: Let_def)
    then obtain n where n: "\<forall>k<n. oldest (polls ?w1 + k) < c" "c \<le> oldest (polls ?w1 + n)"
      using 1(1) by blast
    have "\<forall>k<Suc n. oldest (polls w + k) < c"
    proof (intro allI impI)
      fix k assume "k < Suc n"
      show "oldest (polls w + k) < c"
      proof (cases k)
        case 0
        with True show ?thesis by simp
      next
        case (Suc j)
        with \<open>k < Suc n\<close> n(1) show ?thesis by (simp add: log_event_def)
      qed
    qed
    moreover have "c \<le> oldest (polls w + Suc n)"
      using n(2) by (simp add: log_event_def)
    ultimately show ?thesis by blast
  qed
qed

lemma wait_for_oldest_None:
  assumes "\<forall>k. oldest (polls w + k) < c"
  shows "wait_for_oldest oldest c w = None"
proof (cases "wait_for_oldest oldest c w")
  case None
  then show ?thesis .
next
  case (Some w')
  then obtain n where "c \<le> oldest (polls w + n)"
    using wait_for_oldest_Some by blast
  with assms show ?thesis
    by (metis not_less)
qed

subsection \<open>The scan of \<open>PopulateIndex\<close>\<close>

lemma insert_until_failure_all:
  "inserts_succeed ins ks index \<Longrightarrow>
   insert_until_failure ins ks index = (True, after_inserts ins ks index)"
  by (induction ks arbitrary: index) (simp_all add: after_inserts_def)

lemma insert_until_failure_first:
  "inserts_succeed ins ks1 index \<Longrightarrow> \<not> fst (ins k (after_inserts ins ks1 index)) \<Longrightarrow>
   insert_until_failure ins (ks1 @ k # ks2) index
     = (False, snd (ins k (after_inserts ins ks1 index)))"
  by (induction ks1 arbitrary: index) (simp_all add: after_inserts_def)

lemma copy_to_index_ids:
  "length (ColumnIds pr) \<le> length indkey_ids \<Longrightarrow>
   copy_column_ids indkey_ids (pr\<lparr>attr_values := vs\<rparr>)
     = Some \<lparr>ColumnIds = take (length (ColumnIds pr)) indkey_ids, attr_values = vs\<rparr>"
  by (simp add: copy_column_ids_def NumColumns_def)

lemma copy_back_ids:
  "length cols \<le> length indkey_ids \<Longrightarrow>
   copy_column_ids cols \<lparr>ColumnIds = take (length cols) indkey_ids, attr_values = vs\<rparr>
     = Some \<lparr>ColumnIds = cols, attr_values = vs\<rparr>"
  by (simp add: copy_column_ids_def NumColumns_def)

lemma populate_scan_runs_inserts:
  assumes "length cols \<le> length indkey_ids" and "ColumnIds select_pr = cols"
  shows "populate_scan env txn sql_table unique_index indkey_ids cols its select_pr index =
     Inr (insert_until_failure (index_insert env unique_index txn)
            (map (\<lambda>(it, vs). (\<lparr>ColumnIds = take (length cols) indkey_ids, attr_values = vs\<rparr>, it))
               (List.map_filter (\<lambda>it. map_option (Pair it) (Select sql_table txn it cols)) its))
            index)"
  using assms
proof (induction its arbitrary: select_pr index)
  case Nil
  then show ?case by (simp add: map_filter_simps)
next
  case (Cons it rest)
  show ?case
  proof (cases "Select sql_table txn it cols")
    case None
    with Cons show ?thesis by (simp add: map_filter_simps)
  next
    case (Some vs)
    let ?key = "\<lparr>ColumnIds = take (length cols) indkey_ids, attr_values = vs\<rparr>"
    have to_index: "copy_column_ids indkey_ids (select_pr\<lparr>attr_values := vs\<rparr>) = Some ?key"
      using copy_to_index_ids [of select_pr indkey_ids vs] Cons.prems by simp
    have restore: "copy_column_ids cols ?key = Some \<lparr>ColumnIds = cols, attr_values = vs\<rparr>"
      using copy_back_ids Cons.prems(1) by simp
    obtain ok index1 where ins: "index_insert env unique_index txn (?key, it) index = (ok, index1)"
      by (cases "index_insert env unique_index txn (?key, it) index")
    then have ins': "(if unique_index then InsertUnique env txn ?key it index
                      else Insert env txn ?key it index) = (ok, index1)"
      by (auto simp: index_insert_def split: if_splits)
    show ?thesis
    proof (cases ok)
      case False
      with Some Cons.prems to_index ins ins' show ?thesis
        by (simp add: map_filter_simps)
    next
      case True
      have "populate_scan env txn sql_table unique_index indkey_ids cols rest
              \<lparr>ColumnIds = cols, attr_values = vs\<rparr> index1 =
            Inr (insert_until_failure (index_insert env unique_index txn)
                   (map (\<lambda>(it, vs). (\<lparr>ColumnIds = take (length cols) indkey_ids, attr_values = vs\<rparr>, it))
                      (List.map_filter (\<lambda>it. map_option (Pair it) (Select sql_table txn it cols)) rest))
                   index1)"
        by (rule Cons.IH) (use Cons.prems in simp_all)
      with True Some Cons.prems to_index restore ins ins' show ?thesis
        by (simp add: map_filter_simps)
    qed
  qed
qed

lemma PopulateIndex_runs_inserts:
  assumes "length (InitializerForProjectedRow sql_table (map key_oid (key_schema index)))
             \<le> length (GetProjectedRowInitializer env (key_schema index))"
  shows "PopulateIndex env txn sql_table index unique_index =
     Inr (insert_until_failure (index_insert env unique_index txn)
            (index_keys env txn sql_table index) index)"
  using populate_scan_runs_inserts [OF assms, of _ env txn sql_table unique_index "slots sql_table" index]
  by (simp add: PopulateIndex_def index_keys_def visible_rows_def Let_def)


subsection \<open>The two transactions of \<open>CreateConcurrently\<close>\<close>

lemma txn1_missing_table:
  assumes "GetUserTable env \<lparr>StartTime = time w\<rparr> db_oid ns_oid table_oid = None"
  shows "CreateConcurrently_txn1 env db_oid ns_oid table_oid unique_index index_attrs key_attrs w
     = Inl (w\<lparr>time := Suc (time w), trace := trace w @ [Ev_Begin (time w), Ev_Abort (time w)]\<rparr>)"
  using assms
  by (simp add: CreateConcurrently_txn1_def BeginTransaction_def Abort_def log_event_def)

lemma txn1_commits:
  assumes "GetUserTable env \<lparr>StartTime = time w\<rparr> db_oid ns_oid table_oid = Some sql_table"
    and "fill_key_schema env \<lparr>StartTime = time w\<rparr> db_oid table_oid key_attrs [] = Some ks"
  shows "CreateConcurrently_txn1 env db_oid ns_oid table_oid unique_index index_attrs key_attrs w
     = Inr (Suc (time w), sql_table, next_oid w, next_addr w,
            w\<lparr>time := Suc (Suc (time w)),
              next_oid := next_oid w + 1,
              pg_index := (pg_index w)(next_oid w \<mapsto>
                 initial_index_entry (next_addr w) (next_oid w) table_oid unique_index index_attrs key_attrs),
              index_heap := (index_heap w)(next_addr w \<mapsto>
                 \<lparr>index_oid_of = next_oid w,
                  constraint_type = (if unique_index then UNIQUE else DEFAULT),
                  key_schema = ks, contents = []\<rparr>),
              next_addr := Suc (next_addr w),
              building_flags := (building_flags w)((db_oid, ns_oid, next_oid w) \<mapsto> False),
              trace := trace w @
                [Ev_Begin (time w),
                 Ev_AddEntry (time w) (next_oid w)
                   (initial_index_entry (next_addr w) (next_oid w) table_oid unique_index index_attrs key_attrs),
                 Ev_SetIndexBuildingFlag (db_oid, ns_oid, next_oid w) False,
                 Ev_Commit (time w) (Suc (time w))]\<rparr>)"
  using assms
  by (simp add: CreateConcurrently_txn1_def BeginTransaction_def GetNextOid_def GetEmptyIndex_def
        AddEntry_def SetIndexBuildingFlag_def make_index_id_def Commit_def log_event_def
        initial_index_entry_def Let_def)

lemma txn2_commits:
  assumes "index_heap w index = Some index_obj"
    and "pg_index w index_oid = Some e"
    and "PopulateIndex env \<lparr>StartTime = time w\<rparr> sql_table index_obj unique_index = Inr (populated, index_obj1)"
  shows "CreateConcurrently_txn2 env db_oid ns_oid unique_index sql_table index_oid index w
     = Inr (w\<lparr>time := Suc (Suc (time w)),
              pg_index := (pg_index w)(index_oid \<mapsto> e\<lparr>indisready := False, indisvalid := populated\<rparr>),
              index_heap := (index_heap w)(index \<mapsto> index_obj1),
              building_flags := (building_flags w)((db_oid, ns_oid, index_oid) \<mapsto> True),
              trace := trace w @
                [Ev_BeginWithAction (time w),
                 Ev_SetIndexBuildingFlag (db_oid, ns_oid, index_oid) True,
                 Ev_SetEntryColumn (time w) index_oid ''indisready'' False,
                 Ev_SetEntryColumn (time w) index_oid ''indisvalid'' populated,
                 Ev_Commit (time w) (Suc (time w))]\<rparr>)"
  using assms
  by (simp add: CreateConcurrently_txn2_def BeginTransactionWithAction_def
        SetIndexBuildingFlag_def make_index_id_def SetEntryColumn_def set_column_def
        Commit_def log_event_def Let_def)


lemma txn1_no_attribute:
  assumes "GetUserTable env \<lparr>StartTime = time w\<rparr> db_oid ns_oid table_oid = Some sql_table"
    and "fill_key_schema env \<lparr>StartTime = time w\<rparr> db_oid table_oid key_attrs [] = None"
  shows "CreateConcurrently_txn1 env db_oid ns_oid table_oid unique_index index_attrs key_attrs w
     = Inl (w\<lparr>time := Suc (time w), next_oid := next_oid w + 1,
              trace := trace w @ [Ev_Begin (time w), Ev_Abort (time w)]\<rparr>)"
  using assms
  by (simp add: CreateConcurrently_txn1_def BeginTransaction_def GetNextOid_def GetEmptyIndex_def
        Abort_def log_event_def Let_def)

lemma CreateConcurrently_run:
  assumes tbl: "GetUserTable env \<lparr>StartTime = time w\<rparr> db_oid ns_oid table_oid = Some sql_table"
    and ks: "fill_key_schema env \<lparr>StartTime = time w\<rparr> db_oid table_oid key_attrs [] = Some ks"
    and len: "length (InitializerForProjectedRow sql_table (map key_oid ks))
                \<le> length (GetProjectedRowInitializer env ks)"
    and below: "\<forall>k<n. OldestTransactionStartTime env (polls w + k) < Suc (time w)"
    and reach: "Suc (time w) \<le> OldestTransactionStartTime env (polls w + n)"
  shows "\<exists>w' populated index1.
     PopulateIndex env \<lparr>StartTime = Suc (Suc (time w))\<rparr> sql_table
        \<lparr>index_oid_of = next_oid w, constraint_type = (if unique_index then UNIQUE else DEFAULT),
         key_schema = ks, contents = []\<rparr> unique_index = Inr (populated, index1)
     \<and> CreateConcurrently env db_oid ns_oid table_oid index_type unique_index index_name
                 index_attrs key_attrs w = Some (Inr w')
     \<and> trace w' = trace w @
          [Ev_Begin (time w),
           Ev_AddEntry (time w) (next_oid w)
             (initial_index_entry (next_addr w) (next_oid w) table_oid unique_index index_attrs key_attrs),
           Ev_SetIndexBuildingFlag (db_oid, ns_oid, next_oid w) False,
           Ev_Commit (time w) (Suc (time w))]
          @ map (\<lambda>k. Ev_OldestStartTime (OldestTransactionStartTime env k)) [polls w ..< polls w + Suc n]
          @ [Ev_BeginWithAction (Suc (Suc (time w))),
             Ev_SetIndexBuildingFlag (db_oid, ns_oid, next_oid w) True,
             Ev_SetEntryColumn (Suc (Suc (time w))) (next_oid w) ''indisready'' False,
             Ev_SetEntryColumn (Suc (Suc (time w))) (next_oid w) ''indisvalid'' populated,
             Ev_Commit (Suc (Suc (time w))) (Suc (Suc (Suc (time w))))]
     \<and> pg_index w' (next_oid w) =
          Some ((initial_index_entry (next_addr w) (next_oid w) table_oid unique_index index_attrs key_attrs)
                  \<lparr>indisready := False, indisvalid := populated\<rparr>)
     \<and> index_heap w' (next_addr w) = Some index1"
proof -
  let ?obj = "\<lparr>index_oid_of = next_oid w, constraint_type = (if unique_index then UNIQUE else DEFAULT),
         key_schema = ks, contents = []\<rparr>"
  let ?t2 = "\<lparr>StartTime = Suc (Suc (time w))\<rparr>"
  obtain c sql_table' oid index w1 where
    t1: "CreateConcurrently_txn1 env db_oid ns_oid table_oid unique_index index_attrs key_attrs w
           = Inr (c, sql_table', oid, index, w1)"
    and c: "c = Suc (time w)" "sql_table' = sql_table" "oid = next_oid w" "index = next_addr w"
    and w1: "time w1 = Suc (Suc (time w))" "polls w1 = polls w"
      "index_heap w1 (next_addr w) = Some ?obj"
      "pg_index w1 (next_oid w) = Some (initial_index_entry (next_addr w) (next_oid w) table_oid unique_index index_attrs key_attrs)"
      "trace w1 = trace w @ [Ev_Begin (time w),
           Ev_AddEntry (time w) (next_oid w)
             (initial_index_entry (next_addr w) (next_oid w) table_oid unique_index index_attrs key_attrs),
           Ev_SetIndexBuildingFlag (db_oid, ns_oid, next_oid w) False,
           Ev_Commit (time w) (Suc (time w))]"
    using txn1_commits [OF tbl ks] by simp
  let ?w2 = "w1\<lparr>polls := polls w1 + Suc n,
            trace := trace w1 @ map (\<lambda>k. Ev_OldestStartTime (OldestTransactionStartTime env k))
                                   [polls w1 ..< polls w1 + Suc n]\<rparr>"
  have wait: "wait_for_oldest (OldestTransactionStartTime env) c w1 = Some ?w2"
    using wait_for_oldest_returns [of n "OldestTransactionStartTime env" w1 c] below reach c w1
    by simp
  have "length (InitializerForProjectedRow sql_table (map key_oid (key_schema ?obj)))
          \<le> length (GetProjectedRowInitializer env (key_schema ?obj))"
    using len by simp
  from PopulateIndex_runs_inserts [OF this, of ?t2 unique_index]
  obtain populated index1 where
    pop: "PopulateIndex env ?t2 sql_table ?obj unique_index = Inr (populated, index1)"
    by (cases "insert_until_failure (index_insert env unique_index ?t2)
                 (index_keys env ?t2 sql_table ?obj) ?obj") auto
  have "time ?w2 = Suc (Suc (time w))" "index_heap ?w2 (next_addr w) = Some ?obj"
    "pg_index ?w2 (next_oid w) = Some (initial_index_entry (next_addr w) (next_oid w) table_oid unique_index index_attrs key_attrs)"
    using w1 by simp_all
  with pop have "CreateConcurrently_txn2 env db_oid ns_oid unique_index sql_table (next_oid w) (next_addr w) ?w2
     = Inr (?w2\<lparr>time := Suc (Suc (time ?w2)),
              pg_index := (pg_index ?w2)(next_oid w \<mapsto>
                 (initial_index_entry (next_addr w) (next_oid w) table_oid unique_index index_attrs key_attrs)
                   \<lparr>indisready := False, indisvalid := populated\<rparr>),
              index_heap := (index_heap ?w2)(next_addr w \<mapsto> index1),
              building_flags := (building_flags ?w2)((db_oid, ns_oid, next_oid w) \<mapsto> True),
              trace := trace ?w2 @
                [Ev_BeginWithAction (time ?w2),
                 Ev_SetIndexBuildingFlag (db_oid, ns_oid, next_oid w) True,
                 Ev_SetEntryColumn (time ?w2) (next_oid w) ''indisready'' False,
                 Ev_SetEntryColumn (time ?w2) (next_oid w) ''indisvalid'' populated,
                 Ev_Commit (time ?w2) (Suc (time ?w2))]\<rparr>)" (is "_ = Inr ?w3")
    by (intro txn2_commits) simp_all
  moreover have "CreateConcurrently env db_oid ns_oid table_oid index_type unique_index index_name
          index_attrs key_attrs w
        = Some (CreateConcurrently_txn2 env db_oid ns_oid unique_index sql_table (next_oid w) (next_addr w) ?w2)"
    using t1 c wait by (simp add: CreateConcurrently_def)
  ultimately have res: "CreateConcurrently env db_oid ns_oid table_oid index_type unique_index index_name
          index_attrs key_attrs w = Some (Inr ?w3)"
    by simp
  have tr: "trace ?w3 = trace w @
          [Ev_Begin (time w),
           Ev_AddEntry (time w) (next_oid w)
             (initial_index_entry (next_addr w) (next_oid w) table_oid unique_index index_attrs key_attrs),
           Ev_SetIndexBuildingFlag (db_oid, ns_oid, next_oid w) False,
           Ev_Commit (time w) (Suc (time w))]
          @ map (\<lambda>k. Ev_OldestStartTime (OldestTransactionStartTime env k)) [polls w ..< polls w + Suc n]
          @ [Ev_BeginWithAction (Suc (Suc (time w))),
             Ev_SetIndexBuildingFlag (db_oid, ns_oid, next_oid w) True,
             Ev_SetEntryColumn (Suc (Suc (time w))) (next_oid w) ''indisready'' False,
             Ev_SetEntryColumn (Suc (Suc (time w))) (next_oid w) ''indisvalid'' populated,
             Ev_Commit (Suc (Suc (time w))) (Suc (Suc (Suc (time w))))]"
    using w1 by simp
  have rest: "pg_index ?w3 (next_oid w) =
          Some ((initial_index_entry (next_addr w) (next_oid w) table_oid unique_index index_attrs key_attrs)
                  \<lparr>indisready := False, indisvalid := populated\<rparr>)"
     "index_heap ?w3 (next_addr w) = Some index1"
    by simp_all
  from pop res tr rest show ?thesis by blast
qed





subsection \<open>The small instance\<close>

lemma example_env_simps:
  "GetUserTable example_env txn db_oid ns_oid table_oid
     = (if table_oid = 30 then Some example_table else None)"
  "GetAttributeEntry example_env txn db_oid table_oid name
     = (if name = ''a'' then Some \<lparr>attr_oid = 1, atttypid = 4, attlen = 4,
                                   ColumnIsNull = (\<lambda>c. False)\<rparr> else None)"
  "is_VARLEN_COLUMN example_env type_id = False"
  "Insert example_env txn key it index
     = (True, index\<lparr>contents := contents index @ [(key, it)]\<rparr>)"
  "InsertUnique example_env txn key it index
     = (if attr_values key \<in> set (map (\<lambda>e. attr_values (fst e)) (contents index))
        then (False, index)
        else (True, index\<lparr>contents := contents index @ [(key, it)]\<rparr>))"
  "GetProjectedRowInitializer example_env ks = map Suc [0 ..< length ks]"
  "OldestTransactionStartTime example_env k = (if k < 2 then 0 else 10)"
  by (simp_all add: example_env_def)

lemma example_index_simps:
  "contents (example_index u) = []"
  "key_schema (example_index u) = [\<lparr>key_oid = 1, key_type_id = 4, key_nullable = False,
                                     key_max_varlen_size = Some 4\<rparr>]"
  by (simp_all add: example_index_def)

lemma example_index_keys: "index_keys example_env txn example_table (example_index u) =
   [(\<lparr>ColumnIds = [1], attr_values = [Some 7]\<rparr>, 0),
    (\<lparr>ColumnIds = [1], attr_values = [Some 7]\<rparr>, 2),
    (\<lparr>ColumnIds = [1], attr_values = [Some 9]\<rparr>, 3)]"
  by (simp add: index_keys_def visible_rows_def example_env_simps example_table_def
        example_index_simps map_filter_simps Let_def)

lemma example_world_simps:
  "time example_world = 3" "polls example_world = 0" "next_oid example_world = 100"
  "next_addr example_world = 0" "trace example_world = []"
  by (simp_all add: example_world_def)

lemma example_key_schema:
  "fill_key_schema example_env txn db_oid table_oid [''a''] []
     = Some [\<lparr>key_oid = 1, key_type_id = 4, key_nullable = False, key_max_varlen_size = Some 4\<rparr>]"
  by (simp add: example_env_simps)

lemma example_lengths:
  "length (InitializerForProjectedRow example_table (map key_oid ks))
     \<le> length (GetProjectedRowInitializer example_env ks)"
  by (simp add: example_table_def example_env_simps)

lemma example_polls:
  "(\<forall>k<2. OldestTransactionStartTime example_env (polls example_world + k) < Suc (time example_world))
   \<and> Suc (time example_world) \<le> OldestTransactionStartTime example_env (polls example_world + 2)"
  by (simp add: example_env_simps example_world_simps)

lemma example_table_found:
  "GetUserTable example_env \<lparr>StartTime = time example_world\<rparr> 1 2 30 = Some example_table"
  by (simp add: example_env_simps)



lemma example_table_missing:
  "GetUserTable example_env \<lparr>StartTime = time example_world\<rparr> 1 2 31 = None"
  by (simp add: example_env_simps)

subsection \<open>The claims about the index manager\<close>

text \<open>
  C1. In \<open>CreateConcurrently\<close>, when the table exists and the key attributes are in the
  catalog, the first transaction adds the index entry with \<open>indisready\<close> true,
  \<open>indisvalid\<close>, \<open>indisprimary\<close> and \<open>indislive\<close> false and \<open>indisunique\<close> the caller's
  flag, sets the building flag to false and commits (the first four events of the trace).
  The second transaction begins only after a call of \<open>OldestTransactionStartTime\<close> has
  returned at least the commit time, every earlier call having returned less: if no call
  ever does, the procedure spins and never returns; otherwise the trace of the finished
  procedure is the first transaction, then the calls up to the first that reaches the
  commit time, then the second transaction.
\<close>

theorem CreateConcurrently_barrier_between_transactions:
  assumes tbl: "GetUserTable env \<lparr>StartTime = time w\<rparr> db_oid ns_oid table_oid = Some sql_table"
    and ks: "fill_key_schema env \<lparr>StartTime = time w\<rparr> db_oid table_oid key_attrs [] = Some ks"
  shows "(\<exists>w1. CreateConcurrently_txn1 env db_oid ns_oid table_oid unique_index index_attrs key_attrs w
                 = Inr (Suc (time w), sql_table, next_oid w, next_addr w, w1)
            \<and> trace w1 = trace w @
                 [Ev_Begin (time w),
                  Ev_AddEntry (time w) (next_oid w)
                    (initial_index_entry (next_addr w) (next_oid w) table_oid unique_index index_attrs key_attrs),
                  Ev_SetIndexBuildingFlag (db_oid, ns_oid, next_oid w) False,
                  Ev_Commit (time w) (Suc (time w))]
            \<and> pg_index w1 (next_oid w)
                 = Some (initial_index_entry (next_addr w) (next_oid w) table_oid unique_index index_attrs key_attrs)
            \<and> building_flags w1 (db_oid, ns_oid, next_oid w) = Some False)
     \<and> indisready (initial_index_entry (next_addr w) (next_oid w) table_oid unique_index index_attrs key_attrs)
     \<and> \<not> indisvalid (initial_index_entry (next_addr w) (next_oid w) table_oid unique_index index_attrs key_attrs)
     \<and> \<not> indisprimary (initial_index_entry (next_addr w) (next_oid w) table_oid unique_index index_attrs key_attrs)
     \<and> \<not> indislive (initial_index_entry (next_addr w) (next_oid w) table_oid unique_index index_attrs key_attrs)
     \<and> indisunique (initial_index_entry (next_addr w) (next_oid w) table_oid unique_index index_attrs key_attrs)
          = unique_index
     \<and> ((\<forall>k. OldestTransactionStartTime env (polls w + k) < Suc (time w)) \<longrightarrow>
          CreateConcurrently env db_oid ns_oid table_oid index_type unique_index index_name
            index_attrs key_attrs w = None)
     \<and> (\<forall>n. length (InitializerForProjectedRow sql_table (map key_oid ks))
                \<le> length (GetProjectedRowInitializer env ks)
             \<and> (\<forall>k<n. OldestTransactionStartTime env (polls w + k) < Suc (time w))
             \<and> Suc (time w) \<le> OldestTransactionStartTime env (polls w + n) \<longrightarrow>
          (\<exists>w' populated.
             CreateConcurrently env db_oid ns_oid table_oid index_type unique_index index_name
               index_attrs key_attrs w = Some (Inr w')
             \<and> trace w' = trace w @
                 [Ev_Begin (time w),
                  Ev_AddEntry (time w) (next_oid w)
                    (initial_index_entry (next_addr w) (next_oid w) table_oid unique_index index_attrs key_attrs),
                  Ev_SetIndexBuildingFlag (db_oid, ns_oid, next_oid w) False,
                  Ev_Commit (time w) (Suc (time w))]
                 @ map (\<lambda>k. Ev_OldestStartTime (OldestTransactionStartTime env k))
                     [polls w ..< polls w + Suc n]
                 @ [Ev_BeginWithAction (Suc (Suc (time w))),
                    Ev_SetIndexBuildingFlag (db_oid, ns_oid, next_oid w) True,
                    Ev_SetEntryColumn (Suc (Suc (time w))) (next_oid w) ''indisready'' False,
                    Ev_SetEntryColumn (Suc (Suc (time w))) (next_oid w) ''indisvalid'' populated,
                    Ev_Commit (Suc (Suc (time w))) (Suc (Suc (Suc (time w))))]))"
  (is "?first \<and> ?ready \<and> ?valid \<and> ?primary \<and> ?live \<and> ?unique \<and> ?never \<and> ?passes")
proof -
  note t1 = txn1_commits [OF tbl ks]
  have first: ?first
    by (simp add: t1)
  have flags: ?ready ?valid ?primary ?live ?unique
    by (simp_all add: initial_index_entry_def)
  have never: "CreateConcurrently env db_oid ns_oid table_oid index_type unique_index index_name
            index_attrs key_attrs w = None"
    if "\<forall>k. OldestTransactionStartTime env (polls w + k) < Suc (time w)"
  proof -
    obtain w1 where w1: "CreateConcurrently_txn1 env db_oid ns_oid table_oid unique_index index_attrs key_attrs w
                 = Inr (Suc (time w), sql_table, next_oid w, next_addr w, w1)" "polls w1 = polls w"
      using t1 by simp
    have "wait_for_oldest (OldestTransactionStartTime env) (Suc (time w)) w1 = None"
      by (rule wait_for_oldest_None) (use that w1 in simp)
    with w1 show ?thesis by (simp add: CreateConcurrently_def)
  qed
  have passes: ?passes
  proof (intro allI impI, elim conjE)
    fix n
    assume len: "length (InitializerForProjectedRow sql_table (map key_oid ks))
                \<le> length (GetProjectedRowInitializer env ks)"
      and below: "\<forall>k<n. OldestTransactionStartTime env (polls w + k) < Suc (time w)"
      and reach: "Suc (time w) \<le> OldestTransactionStartTime env (polls w + n)"
    from CreateConcurrently_run [OF tbl ks len below reach, where unique_index = unique_index
        and index_type = index_type and index_name = index_name and index_attrs = index_attrs]
    obtain w' populated where
      "CreateConcurrently env db_oid ns_oid table_oid index_type unique_index index_name
               index_attrs key_attrs w = Some (Inr w')"
      "trace w' = trace w @
                 [Ev_Begin (time w),
                  Ev_AddEntry (time w) (next_oid w)
                    (initial_index_entry (next_addr w) (next_oid w) table_oid unique_index index_attrs key_attrs),
                  Ev_SetIndexBuildingFlag (db_oid, ns_oid, next_oid w) False,
                  Ev_Commit (time w) (Suc (time w))]
                 @ map (\<lambda>k. Ev_OldestStartTime (OldestTransactionStartTime env k))
                     [polls w ..< polls w + Suc n]
                 @ [Ev_BeginWithAction (Suc (Suc (time w))),
                    Ev_SetIndexBuildingFlag (db_oid, ns_oid, next_oid w) True,
                    Ev_SetEntryColumn (Suc (Suc (time w))) (next_oid w) ''indisready'' False,
                    Ev_SetEntryColumn (Suc (Suc (time w))) (next_oid w) ''indisvalid'' populated,
                    Ev_Commit (Suc (Suc (time w))) (Suc (Suc (Suc (time w))))]"
      by (elim exE conjE)
    then show "\<exists>w' populated.
             CreateConcurrently env db_oid ns_oid table_oid index_type unique_index index_name
               index_attrs key_attrs w = Some (Inr w')
             \<and> trace w' = trace w @
                 [Ev_Begin (time w),
                  Ev_AddEntry (time w) (next_oid w)
                    (initial_index_entry (next_addr w) (next_oid w) table_oid unique_index index_attrs key_attrs),
                  Ev_SetIndexBuildingFlag (db_oid, ns_oid, next_oid w) False,
                  Ev_Commit (time w) (Suc (time w))]
                 @ map (\<lambda>k. Ev_OldestStartTime (OldestTransactionStartTime env k))
                     [polls w ..< polls w + Suc n]
                 @ [Ev_BeginWithAction (Suc (Suc (time w))),
                    Ev_SetIndexBuildingFlag (db_oid, ns_oid, next_oid w) True,
                    Ev_SetEntryColumn (Suc (Suc (time w))) (next_oid w) ''indisready'' False,
                    Ev_SetEntryColumn (Suc (Suc (time w))) (next_oid w) ''indisvalid'' populated,
                    Ev_Commit (Suc (Suc (time w))) (Suc (Suc (Suc (time w))))]"
      by (intro exI conjI)
  qed
  have never': ?never
    using never by (intro impI)
  show ?thesis
    by (intro conjI first flags never' passes)
qed

theorem CreateConcurrently_barrier_between_transactions_witness:
  "GetUserTable example_env \<lparr>StartTime = time example_world\<rparr> 1 2 30 = Some example_table
   \<and> fill_key_schema example_env \<lparr>StartTime = time example_world\<rparr> 1 30 [''a''] []
       = Some [\<lparr>key_oid = 1, key_type_id = 4, key_nullable = False, key_max_varlen_size = Some 4\<rparr>]
   \<and> (\<exists>w' populated.
         CreateConcurrently example_env 1 2 30 () True ''idx'' [''a''] [''a''] example_world
           = Some (Inr w')
         \<and> trace w' =
             [Ev_Begin 3,
              Ev_AddEntry 3 100 (initial_index_entry 0 100 30 True [''a''] [''a'']),
              Ev_SetIndexBuildingFlag (1, 2, 100) False,
              Ev_Commit 3 4,
              Ev_OldestStartTime 0, Ev_OldestStartTime 0, Ev_OldestStartTime 10,
              Ev_BeginWithAction 5,
              Ev_SetIndexBuildingFlag (1, 2, 100) True,
              Ev_SetEntryColumn 5 100 ''indisready'' False,
              Ev_SetEntryColumn 5 100 ''indisvalid'' populated,
              Ev_Commit 5 6])"
proof -
  note run = CreateConcurrently_barrier_between_transactions [OF example_table_found example_key_schema,
      where unique_index = True and index_type = "()" and index_name = "''idx''"
        and index_attrs = "[''a'']",
      THEN conjunct2, THEN conjunct2, THEN conjunct2, THEN conjunct2, THEN conjunct2,
      THEN conjunct2, THEN conjunct2, THEN spec, of 2, THEN mp,
      OF conjI [OF example_lengths example_polls]]
  have polls: "map (\<lambda>k. Ev_OldestStartTime (OldestTransactionStartTime example_env k))
                 [polls example_world ..< polls example_world + Suc 2]
               = [Ev_OldestStartTime 0, Ev_OldestStartTime 0, Ev_OldestStartTime 10]"
    by (simp add: example_world_simps example_env_simps upt_rec)
  from run [unfolded polls] have "\<exists>w' populated.
         CreateConcurrently example_env 1 2 30 () True ''idx'' [''a''] [''a''] example_world
           = Some (Inr w')
         \<and> trace w' =
             [Ev_Begin 3,
              Ev_AddEntry 3 100 (initial_index_entry 0 100 30 True [''a''] [''a'']),
              Ev_SetIndexBuildingFlag (1, 2, 100) False,
              Ev_Commit 3 4,
              Ev_OldestStartTime 0, Ev_OldestStartTime 0, Ev_OldestStartTime 10,
              Ev_BeginWithAction 5,
              Ev_SetIndexBuildingFlag (1, 2, 100) True,
              Ev_SetEntryColumn 5 100 ''indisready'' False,
              Ev_SetEntryColumn 5 100 ''indisvalid'' populated,
              Ev_Commit 5 6]"
    by (simp add: example_world_simps)
  with example_table_found example_key_schema show ?thesis
    by (intro conjI)
qed




text \<open>
  C3. Provided the table's projected row has no more columns than the index's (so that
  the copies of column ids stay in range), \<open>PopulateIndex\<close> offers the index one key per
  row visible to the transaction, in scan order; it returns true, having inserted them
  all, when every insert succeeds; and at the first insert that fails (with
  \<open>InsertUnique\<close> for a unique index, \<open>Insert\<close> otherwise) it returns false with the
  index as that insert left it, whatever rows follow.
\<close>

theorem PopulateIndex_one_key_per_visible_row:
  assumes "length (InitializerForProjectedRow sql_table (map key_oid (key_schema index)))
             \<le> length (GetProjectedRowInitializer env (key_schema index))"
  shows "length (index_keys env txn sql_table index)
           = length (visible_rows sql_table txn
                       (InitializerForProjectedRow sql_table (map key_oid (key_schema index))))
     \<and> (inserts_succeed (index_insert env unique_index txn) (index_keys env txn sql_table index) index
          \<longrightarrow> PopulateIndex env txn sql_table index unique_index
                = Inr (True, after_inserts (index_insert env unique_index txn)
                               (index_keys env txn sql_table index) index))
     \<and> (\<forall>ks1 k ks2.
          index_keys env txn sql_table index = ks1 @ k # ks2
          \<and> inserts_succeed (index_insert env unique_index txn) ks1 index
          \<and> \<not> fst (index_insert env unique_index txn k
                      (after_inserts (index_insert env unique_index txn) ks1 index))
          \<longrightarrow> PopulateIndex env txn sql_table index unique_index
                = Inr (False, snd (index_insert env unique_index txn k
                                    (after_inserts (index_insert env unique_index txn) ks1 index))))"
proof (intro conjI allI impI)
  show "length (index_keys env txn sql_table index)
           = length (visible_rows sql_table txn
                       (InitializerForProjectedRow sql_table (map key_oid (key_schema index))))"
    by (simp add: index_keys_def Let_def)
next
  assume "inserts_succeed (index_insert env unique_index txn) (index_keys env txn sql_table index) index"
  then show "PopulateIndex env txn sql_table index unique_index
                = Inr (True, after_inserts (index_insert env unique_index txn)
                               (index_keys env txn sql_table index) index)"
    using PopulateIndex_runs_inserts [OF assms] by (simp add: insert_until_failure_all)
next
  fix ks1 k ks2
  assume "index_keys env txn sql_table index = ks1 @ k # ks2
          \<and> inserts_succeed (index_insert env unique_index txn) ks1 index
          \<and> \<not> fst (index_insert env unique_index txn k
                      (after_inserts (index_insert env unique_index txn) ks1 index))"
  then show "PopulateIndex env txn sql_table index unique_index
                = Inr (False, snd (index_insert env unique_index txn k
                                    (after_inserts (index_insert env unique_index txn) ks1 index)))"
    using PopulateIndex_runs_inserts [OF assms, of txn unique_index]
    by (simp add: insert_until_failure_first)
qed

theorem PopulateIndex_one_key_per_visible_row_witness:
  "length (InitializerForProjectedRow example_table (map key_oid (key_schema (example_index True))))
     \<le> length (GetProjectedRowInitializer example_env (key_schema (example_index True)))
   \<and> PopulateIndex example_env \<lparr>StartTime = 5\<rparr> example_table (example_index False) False
       = Inr (True, (example_index False)
               \<lparr>contents := [(\<lparr>ColumnIds = [1], attr_values = [Some 7]\<rparr>, 0),
                             (\<lparr>ColumnIds = [1], attr_values = [Some 7]\<rparr>, 2),
                             (\<lparr>ColumnIds = [1], attr_values = [Some 9]\<rparr>, 3)]\<rparr>)
   \<and> PopulateIndex example_env \<lparr>StartTime = 5\<rparr> example_table (example_index True) True
       = Inr (False, (example_index True)
               \<lparr>contents := [(\<lparr>ColumnIds = [1], attr_values = [Some 7]\<rparr>, 0)]\<rparr>)"
proof -
  have len: "length (InitializerForProjectedRow example_table (map key_oid (key_schema (example_index u))))
     \<le> length (GetProjectedRowInitializer example_env (key_schema (example_index u)))" for u
    by (simp add: example_table_def example_env_simps example_index_simps)
  have all: "inserts_succeed (index_insert example_env False \<lparr>StartTime = 5\<rparr>)
               (index_keys example_env \<lparr>StartTime = 5\<rparr> example_table (example_index False))
               (example_index False)"
    by (simp add: example_index_keys index_insert_def example_env_simps)
  have split: "index_keys example_env \<lparr>StartTime = 5\<rparr> example_table (example_index True)
         = [(\<lparr>ColumnIds = [1], attr_values = [Some 7]\<rparr>, 0)]
           @ (\<lparr>ColumnIds = [1], attr_values = [Some 7]\<rparr>, 2)
           # [(\<lparr>ColumnIds = [1], attr_values = [Some 9]\<rparr>, 3)]
       \<and> inserts_succeed (index_insert example_env True \<lparr>StartTime = 5\<rparr>)
           [(\<lparr>ColumnIds = [1], attr_values = [Some 7]\<rparr>, 0)] (example_index True)
       \<and> \<not> fst (index_insert example_env True \<lparr>StartTime = 5\<rparr>
                   (\<lparr>ColumnIds = [1], attr_values = [Some 7]\<rparr>, 2)
                   (after_inserts (index_insert example_env True \<lparr>StartTime = 5\<rparr>)
                      [(\<lparr>ColumnIds = [1], attr_values = [Some 7]\<rparr>, 0)] (example_index True)))"
    by (simp add: example_index_keys index_insert_def example_env_simps after_inserts_def example_index_simps)
  from PopulateIndex_one_key_per_visible_row [OF len [of False], of "\<lparr>StartTime = 5\<rparr>" False] all
  have "PopulateIndex example_env \<lparr>StartTime = 5\<rparr> example_table (example_index False) False
       = Inr (True, after_inserts (index_insert example_env False \<lparr>StartTime = 5\<rparr>)
                               (index_keys example_env \<lparr>StartTime = 5\<rparr> example_table (example_index False)) (example_index False))"
    by blast
  then have a: "PopulateIndex example_env \<lparr>StartTime = 5\<rparr> example_table (example_index False) False
       = Inr (True, (example_index False)
               \<lparr>contents := [(\<lparr>ColumnIds = [1], attr_values = [Some 7]\<rparr>, 0),
                             (\<lparr>ColumnIds = [1], attr_values = [Some 7]\<rparr>, 2),
                             (\<lparr>ColumnIds = [1], attr_values = [Some 9]\<rparr>, 3)]\<rparr>)"
    by (simp add: example_index_keys after_inserts_def index_insert_def example_env_simps example_index_simps)
  from PopulateIndex_one_key_per_visible_row [OF len [of True], of "\<lparr>StartTime = 5\<rparr>" True] split
  have "PopulateIndex example_env \<lparr>StartTime = 5\<rparr> example_table (example_index True) True
       = Inr (False, snd (index_insert example_env True \<lparr>StartTime = 5\<rparr>
                   (\<lparr>ColumnIds = [1], attr_values = [Some 7]\<rparr>, 2)
                   (after_inserts (index_insert example_env True \<lparr>StartTime = 5\<rparr>)
                      [(\<lparr>ColumnIds = [1], attr_values = [Some 7]\<rparr>, 0)] (example_index True))))"
    by blast
  then have b: "PopulateIndex example_env \<lparr>StartTime = 5\<rparr> example_table (example_index True) True
       = Inr (False, (example_index True)
               \<lparr>contents := [(\<lparr>ColumnIds = [1], attr_values = [Some 7]\<rparr>, 0)]\<rparr>)"
    by (simp add: after_inserts_def index_insert_def example_env_simps example_index_simps)
  from len [of True] a b show ?thesis by blast
qed

text \<open>
  C4. When the catalog has no such user table, \<open>CreateConcurrently\<close> and \<open>Drop\<close> begin
  a transaction, abort it and return: the index catalog, the index objects, the building
  flags and the oid counter are as before.
\<close>

theorem missing_user_table_aborts_without_change:
  assumes "GetUserTable env \<lparr>StartTime = time w\<rparr> db_oid ns_oid table_oid = None"
  shows "\<exists>w'. CreateConcurrently env db_oid ns_oid table_oid index_type unique_index index_name
                 index_attrs key_attrs w = Some (Inr w')
            \<and> Drop env db_oid ns_oid table_oid index_oid index_name w = Some (Inr w')
            \<and> trace w' = trace w @ [Ev_Begin (time w), Ev_Abort (time w)]
            \<and> pg_index w' = pg_index w \<and> index_heap w' = index_heap w
            \<and> building_flags w' = building_flags w
            \<and> next_oid w' = next_oid w \<and> next_addr w' = next_addr w \<and> polls w' = polls w"
proof -
  let ?w' = "w\<lparr>time := Suc (time w), trace := trace w @ [Ev_Begin (time w), Ev_Abort (time w)]\<rparr>"
  have "CreateConcurrently env db_oid ns_oid table_oid index_type unique_index index_name
          index_attrs key_attrs w = Some (Inr ?w')"
    using txn1_missing_table [OF assms] by (simp add: CreateConcurrently_def)
  moreover have "Drop env db_oid ns_oid table_oid index_oid index_name w = Some (Inr ?w')"
    using assms by (simp add: Drop_def BeginTransaction_def Abort_def log_event_def)
  ultimately show ?thesis by simp
qed

theorem missing_user_table_aborts_without_change_witness:
  "GetUserTable example_env \<lparr>StartTime = time example_world\<rparr> 1 2 31 = None
   \<and> (\<exists>w'. CreateConcurrently example_env 1 2 31 () True ''idx'' [''a''] [''a''] example_world
              = Some (Inr w')
          \<and> Drop example_env 1 2 31 100 ''idx'' example_world = Some (Inr w')
          \<and> trace w' = [Ev_Begin 3, Ev_Abort 3]
          \<and> pg_index w' = Map.empty \<and> index_heap w' = Map.empty
          \<and> building_flags w' = Map.empty)"
proof -
  from missing_user_table_aborts_without_change [OF example_table_missing, where unique_index = True and index_type = "()"
      and index_name = "''idx''" and index_attrs = "[''a'']" and key_attrs = "[''a'']"
      and index_oid = 100]
  obtain w' where
    "CreateConcurrently example_env 1 2 31 () True ''idx'' [''a''] [''a''] example_world
              = Some (Inr w')"
    "Drop example_env 1 2 31 100 ''idx'' example_world = Some (Inr w')"
    "trace w' = trace example_world @ [Ev_Begin (time example_world), Ev_Abort (time example_world)]"
    "pg_index w' = pg_index example_world" "index_heap w' = index_heap example_world"
    "building_flags w' = building_flags example_world"
    by (elim exE conjE)
  then have "\<exists>w'. CreateConcurrently example_env 1 2 31 () True ''idx'' [''a''] [''a''] example_world
              = Some (Inr w')
          \<and> Drop example_env 1 2 31 100 ''idx'' example_world = Some (Inr w')
          \<and> trace w' = [Ev_Begin 3, Ev_Abort 3]
          \<and> pg_index w' = Map.empty \<and> index_heap w' = Map.empty
          \<and> building_flags w' = Map.empty"
    by (intro exI [of _ w']) (simp add: example_world_def)
  with example_table_missing show ?thesis
    by (intro conjI)
qed

end
